theory Spec2Isabelle
  imports Main "HOL-Library.Sublist"
begin

section \<open>Python strings\<close>

text \<open>
  A Python \<open>str\<close> is modelled as a \<open>string\<close> (a list of 8-bit characters).
  \<open>str.lower()\<close> is modelled on the ASCII range: the letters \<open>A\<close> .. \<open>Z\<close> (codes 65 .. 90)
  are moved to \<open>a\<close> .. \<open>z\<close> and every other character is kept. All keyword tables of the
  program are ASCII. A character outside ASCII is the bytes of its UTF-8 encoding, which the
  model keeps; Python also lowers letters outside ASCII, a few of them to ASCII letters
  (the Kelvin sign to \<open>k\<close>), so the model is the code on ASCII queries.
\<close>

definition lower_char :: "char \<Rightarrow> char" where
  "lower_char c =
     (let n = (of_char c :: nat) in if 65 \<le> n \<and> n \<le> 90 then char_of (n + 32) else c)"

definition lower :: "string \<Rightarrow> string" where
  "lower s = map lower_char s"

text \<open>
  The operator \<open>k in q\<close> on two strings: \<open>k\<close> occurs in \<open>q\<close> as a contiguous block.
  The empty string occurs in every string.
\<close>

fun py_in :: "string \<Rightarrow> string \<Rightarrow> bool" where
  "py_in k [] = (k = [])"
| "py_in k (c # cs) = (prefix k (c # cs) \<or> py_in k cs)"

text \<open>\<open>sum(1 for k in ks if k in q)\<close>: the number of entries of \<open>ks\<close> that occur in \<open>q\<close>.\<close>

definition hits :: "string list \<Rightarrow> string \<Rightarrow> nat" where
  "hits ks q = length (filter (\<lambda>k. py_in k q) ks)"

text \<open>
  \<open>max(items, key=...)\<close> on a non-empty sequence \<open>x, xs\<close>: the scan keeps the current best
  and replaces it only by an item whose key is strictly greater, so the first maximal item
  is returned.
\<close>

definition max_by :: "('a \<Rightarrow> nat) \<Rightarrow> 'a \<Rightarrow> 'a list \<Rightarrow> 'a" where
  "max_by key x xs = foldl (\<lambda>best y. if key best < key y then y else best) x xs"

section \<open>The query annotator of \<open>memory_manager.py\<close>\<close>

text \<open>
  The methods \<open>_extract_topics\<close>, \<open>_estimate_difficulty\<close>, \<open>_identify_subject\<close> and
  \<open>_classify_question_type\<close> of \<open>MemoryManager\<close>, on a \<open>str\<close> argument. The leading
  underscore of the Python names is dropped.
\<close>

definition math_keywords :: "string list" where
  "math_keywords = [''equation'', ''algebra'', ''geometry'', ''calculus'', ''trigonometry'',
     ''statistics'', ''probability'', ''derivative'', ''integral'', ''formula'']"

definition science_keywords :: "string list" where
  "science_keywords = [''physics'', ''chemistry'', ''biology'', ''atom'', ''molecule'',
     ''cell'', ''force'', ''energy'', ''reaction'', ''evolution'']"

definition language_keywords :: "string list" where
  "language_keywords = [''grammar'', ''essay'', ''writing'', ''literature'', ''poem'',
     ''analysis'', ''thesis'', ''paragraph'', ''vocabulary'']"

definition history_keywords :: "string list" where
  "history_keywords = [''war'', ''revolution'', ''empire'', ''civilization'', ''timeline'',
     ''ancient'', ''medieval'', ''modern'', ''century'']"

definition all_keywords :: "string list" where
  "all_keywords = math_keywords @ science_keywords @ language_keywords @ history_keywords"

definition extract_topics :: "string \<Rightarrow> string list" where
  "extract_topics query =
     (let query_lower = lower query;
          topics = filter (\<lambda>keyword. py_in keyword query_lower) all_keywords
      in take 3 topics)"

definition advanced_indicators :: "string list" where
  "advanced_indicators = [''advanced'', ''complex'', ''analyze'', ''evaluate'', ''synthesize'',
     ''derivative'', ''integral'', ''quantum'', ''molecular'', ''theorem'']"

definition basic_indicators :: "string list" where
  "basic_indicators = [''what is'', ''how to'', ''explain'', ''simple'', ''basic'',
     ''introduction'']"

definition estimate_difficulty :: "string \<Rightarrow> string" where
  "estimate_difficulty query =
     (let query_lower = lower query;
          advanced_count = hits advanced_indicators query_lower;
          basic_count = hits basic_indicators query_lower
      in if advanced_count > basic_count then ''advanced''
         else if basic_count > 0 then ''beginner''
         else ''intermediate'')"

text \<open>
  The dictionary literal \<open>subject_keywords\<close> is iterated in insertion order, so it is an
  association list. The third Biology keyword is written in upper case in the source.
\<close>

definition subject_keywords :: "(string \<times> string list) list" where
  "subject_keywords =
    [(''Mathematics'', [''math'', ''algebra'', ''geometry'', ''calculus'', ''equation'', ''formula'', ''solve'']),
     (''Physics'', [''physics'', ''force'', ''energy'', ''momentum'', ''wave'', ''electricity'', ''magnetism'']),
     (''Chemistry'', [''chemistry'', ''atom'', ''molecule'', ''reaction'', ''compound'', ''element'']),
     (''Biology'', [''biology'', ''cell'', ''DNA'', ''evolution'', ''organism'', ''genetics'', ''anatomy'']),
     (''Computer Science'', [''programming'', ''code'', ''algorithm'', ''software'', ''computer'', ''python'', ''java'']),
     (''English'', [''essay'', ''writing'', ''grammar'', ''literature'', ''poem'', ''analysis'', ''thesis'']),
     (''History'', [''history'', ''war'', ''empire'', ''revolution'', ''ancient'', ''medieval'', ''timeline'']),
     (''Geography'', [''geography'', ''map'', ''climate'', ''country'', ''continent'', ''ocean'', ''mountain'']),
     (''Art'', [''art'', ''painting'', ''sculpture'', ''artist'', ''museum'', ''drawing'', ''design'']),
     (''Music'', [''music'', ''note'', ''chord'', ''rhythm'', ''melody'', ''instrument'', ''composer''])]"

text \<open>
  \<open>subject_scores\<close> receives, in the order of \<open>subject_keywords\<close>, the subjects whose score
  is positive; the keys of \<open>subject_keywords\<close> are distinct, so the dictionary is the list
  of its items.
\<close>

definition subject_scores :: "string \<Rightarrow> (string \<times> nat) list" where
  "subject_scores query_lower =
     filter (\<lambda>(subject, score). score > 0)
       (map (\<lambda>(subject, keywords). (subject, hits keywords query_lower)) subject_keywords)"

definition identify_subject :: "string \<Rightarrow> string" where
  "identify_subject query =
     (let query_lower = lower query in
      case subject_scores query_lower of
        [] \<Rightarrow> ''General''
      | x # xs \<Rightarrow> fst (max_by snd x xs))"

definition classify_question_type :: "string \<Rightarrow> string" where
  "classify_question_type query =
     (let query_lower = lower query in
      if list_ex (\<lambda>word. py_in word query_lower) [''solve'', ''calculate'', ''find'', ''compute'']
        then ''problem_solving''
      else if list_ex (\<lambda>word. py_in word query_lower) [''explain'', ''what is'', ''how does'', ''why'']
        then ''conceptual''
      else if list_ex (\<lambda>word. py_in word query_lower) [''analyze'', ''compare'', ''evaluate'', ''discuss'']
        then ''analytical''
      else if list_ex (\<lambda>word. py_in word query_lower) [''help'', ''check'', ''review'', ''feedback'']
        then ''assistance''
      else ''general'')"

section \<open>The interaction store of \<open>memory_manager.py\<close>\<close>

subsection \<open>Values, exceptions and the session memory\<close>

text \<open>
  \<open>add_interaction\<close> is annotated with \<open>str\<close> arguments, but Python does not enforce it:
  \<open>pyval\<close> lists the kinds of value a caller can pass. The exceptions are the ones the
  modelled statements can raise.
\<close>

datatype pyval = PyStr string | PyNone | PyInt int | PyBytes string

datatype exn = AttributeError | TypeError | KeyError | ValueError | APIError | JSONDecodeError

text \<open>
  The dictionary built in \<open>add_interaction\<close>. \<open>timestamp\<close> is the value of
  \<open>datetime.now()\<close>, in microseconds; the ISO text stored by the source is parsed back
  to the same instant by \<open>fromisoformat\<close>.
\<close>

record interaction =
  timestamp :: int
  user_query :: string
  ai_response :: pyval
  topics :: "string list"
  difficulty :: string
  subject :: string

text \<open>The dictionary \<open>learning_patterns\<close>: each of its three keys may be absent.\<close>

record patterns =
  preferred_question_types :: "string list option"
  difficulty_history :: "string list option"
  difficulty_trend :: "string option"

text \<open>
  The dictionary kept in \<open>st.session_state["learning_memory"]\<close>. Its entries
  \<open>subject_focus\<close>, \<open>difficulty_tracking\<close> and \<open>last_session\<close> are written by the
  constructor and by \<open>clear_memory\<close> only, always with the same values, and never read;
  they are left out.
\<close>

record memory =
  interactions :: "interaction list"
  learning_patterns :: patterns

definition max_interactions :: nat where
  "max_interactions = 50"

definition empty_patterns :: patterns where
  "empty_patterns =
     \<lparr>preferred_question_types = None, difficulty_history = None, difficulty_trend = None\<rparr>"

text \<open>The memory that \<open>__init__\<close> stores for a session that has none.\<close>

definition init_memory :: memory where
  "init_memory = \<lparr>interactions = [], learning_patterns = empty_patterns\<rparr>"

definition clear_memory :: "memory \<Rightarrow> memory" where
  "clear_memory memory = \<lparr>interactions = [], learning_patterns = empty_patterns\<rparr>"

text \<open>The slice \<open>xs[-n:]\<close> for a positive constant \<open>n\<close>: the last \<open>n\<close> items, or all of them.\<close>

definition lastn :: "nat \<Rightarrow> 'a list \<Rightarrow> 'a list" where
  "lastn n xs = drop (length xs - n) xs"

subsection \<open>\<open>add_interaction\<close> and \<open>_update_learning_patterns\<close>\<close>

text \<open>
  The three annotators start with \<open>query.lower()\<close>. \<open>None\<close> and an \<open>int\<close> have no such
  method (\<open>AttributeError\<close>); \<open>bytes\<close> has one, and the first test \<open>keyword in query_lower\<close>
  of a \<open>str\<close> keyword against it raises \<open>TypeError\<close>. \<open>_extract_topics\<close> is the first
  annotator evaluated by the dictionary display, so the exception leaves before anything is
  stored.
\<close>

fun as_query :: "pyval \<Rightarrow> exn + string" where
  "as_query (PyStr s) = Inr s"
| "as_query PyNone = Inl AttributeError"
| "as_query (PyInt n) = Inl AttributeError"
| "as_query (PyBytes b) = Inl TypeError"

definition new_interaction :: "int \<Rightarrow> pyval \<Rightarrow> pyval \<Rightarrow> exn + interaction" where
  "new_interaction now query response =
     (case as_query query of
        Inl e \<Rightarrow> Inl e
      | Inr q \<Rightarrow> Inr \<lparr>timestamp = now, user_query = q, ai_response = response,
                      topics = extract_topics q, difficulty = estimate_difficulty q,
                      subject = identify_subject q\<rparr>)"

definition difficulty_values :: "string \<rightharpoonup> nat" where
  "difficulty_values = map_of [(''beginner'', 1), (''intermediate'', 2), (''advanced'', 3)]"

text \<open>
  The \<open>try\<close> block of \<open>_update_learning_patterns\<close>. \<open>patterns\<close> is the dictionary stored
  in the memory itself, not a copy, so each assignment to it is a change of the memory at
  once. The result is the exception that left the block, if any, and the memory at that
  moment: the subscription \<open>difficulty_values[d]\<close> raises \<open>KeyError\<close> for an unknown label
  after both histories have been extended.
\<close>

definition update_learning_patterns_body :: "memory \<Rightarrow> interaction \<Rightarrow> exn option \<times> memory" where
  "update_learning_patterns_body memory i =
     (let p0 = learning_patterns memory;
          query_type = classify_question_type (user_query i);
          types = (case preferred_question_types p0 of None \<Rightarrow> [] | Some l \<Rightarrow> l);
          p1 = p0\<lparr>preferred_question_types := Some (lastn 10 (types @ [query_type]))\<rparr>;
          samples = (case difficulty_history p1 of None \<Rightarrow> [] | Some l \<Rightarrow> l);
          history = lastn 10 (samples @ [difficulty i]);
          p2 = p1\<lparr>difficulty_history := Some history\<rparr>
      in if length history \<ge> 3 then
           (let recent_difficulties = lastn 3 history in
            case those (map difficulty_values recent_difficulties) of
              None \<Rightarrow> (Some KeyError, memory\<lparr>learning_patterns := p2\<rparr>)
            | Some scores \<Rightarrow>
                (None, memory\<lparr>learning_patterns := p2\<lparr>difficulty_trend :=
                   Some (if last scores > hd scores then ''increasing''
                         else if last scores < hd scores then ''decreasing''
                         else ''stable'')\<rparr>\<rparr>))
         else (None, memory\<lparr>learning_patterns := p2\<rparr>))"

text \<open>\<open>except Exception: pass\<close>: the method returns normally with the memory as it is.\<close>

definition update_learning_patterns :: "memory \<Rightarrow> interaction \<Rightarrow> memory" where
  "update_learning_patterns memory i = snd (update_learning_patterns_body memory i)"

text \<open>
  The \<open>try\<close> block of \<open>add_interaction\<close>, with the same reading of the result. \<open>memory\<close>
  is the stored dictionary, so \<open>append\<close> changes the store at once.
\<close>

definition append_capped :: "memory \<Rightarrow> interaction \<Rightarrow> memory" where
  "append_capped memory i =
     (let m1 = memory\<lparr>interactions := interactions memory @ [i]\<rparr>
      in if length (interactions m1) > max_interactions
         then m1\<lparr>interactions := lastn max_interactions (interactions m1)\<rparr>
         else m1)"

definition add_interaction_body :: "memory \<Rightarrow> int \<Rightarrow> pyval \<Rightarrow> pyval \<Rightarrow> exn option \<times> memory" where
  "add_interaction_body memory now query response =
     (case new_interaction now query response of
        Inl e \<Rightarrow> (Some e, memory)
      | Inr i \<Rightarrow> (None, update_learning_patterns (append_capped memory i) i))"

text \<open>
  The method: \<open>Inl\<close> would be an exception reaching the caller. The handler
  \<open>except Exception: pass\<close> turns every exception of the block into a normal return.
\<close>

definition add_interaction :: "memory \<Rightarrow> int \<Rightarrow> pyval \<Rightarrow> pyval \<Rightarrow> exn + memory" where
  "add_interaction memory now query response =
     (case add_interaction_body memory now query response of
        (None, m) \<Rightarrow> Inr m
      | (Some e, m) \<Rightarrow> Inr m)"


text \<open>A session: the calls \<open>add_interaction(query, response)\<close> made at the instants \<open>now\<close>.\<close>

fun run :: "memory \<Rightarrow> (int \<times> pyval \<times> pyval) list \<Rightarrow> memory" where
  "run m [] = m"
| "run m ((now, query, response) # calls) =
     (case add_interaction m now query response of
        Inl e \<Rightarrow> m
      | Inr m' \<Rightarrow> run m' calls)"

text \<open>The states of a session: a fresh store, changed by \<open>add_interaction\<close> and \<open>clear_memory\<close>.\<close>

inductive reachable :: "memory \<Rightarrow> bool" where
  fresh: "reachable init_memory"
| added: "reachable m \<Longrightarrow> add_interaction m now query response = Inr m' \<Longrightarrow> reachable m'"
| cleared: "reachable m \<Longrightarrow> reachable (clear_memory m)"

subsection \<open>The read accessors\<close>

text \<open>\<open>sep.join(parts)\<close>.\<close>

fun join :: "string \<Rightarrow> string list \<Rightarrow> string" where
  "join sep [] = []"
| "join sep [x] = x"
| "join sep (x # y # ys) = x @ sep @ join sep (y # ys)"

text \<open>The decimal text of an integer, as an f-string prints it.\<close>

function str_nat :: "nat \<Rightarrow> string" where
  "str_nat n = (if n < 10 then [char_of (48 + n)] else str_nat (n div 10) @ [char_of (48 + n mod 10)])"
  by pat_completeness auto
termination
  by (relation "measure id") auto

definition str_int :: "int \<Rightarrow> string" where
  "str_int i = (if i < 0 then CHR ''-'' # str_nat (nat (- i)) else str_nat (nat i))"

text \<open>
  The counting loop \<open>counts[k] = counts.get(k, 0) + 1\<close>: a dictionary in insertion order,
  so an association list with distinct keys; a new key goes to the end.
\<close>

definition bump :: "(string \<times> nat) list \<Rightarrow> string \<Rightarrow> (string \<times> nat) list" where
  "bump counts k =
     (case map_of counts k of
        None \<Rightarrow> counts @ [(k, 1)]
      | Some c \<Rightarrow> map (\<lambda>(k', c'). if k' = k then (k', c' + 1) else (k', c')) counts)"

definition count_subjects :: "string list \<Rightarrow> (string \<times> nat) list" where
  "count_subjects subjects = foldl bump [] subjects"

text \<open>
  \<open>get_learning_context\<close>. The order in which \<open>list(set(recent_topics))\<close> lists the
  distinct topics is not fixed by Python; it is the parameter \<open>set_order\<close>. \<open>max\<close> of an
  empty sequence raises \<open>ValueError\<close>, which the handler of the method turns into its
  fallback sentence.
\<close>

definition patterns_nonempty :: "patterns \<Rightarrow> bool" where
  "patterns_nonempty p \<longleftrightarrow>
     preferred_question_types p \<noteq> None \<or> difficulty_history p \<noteq> None \<or> difficulty_trend p \<noteq> None"

definition get_learning_context :: "(string list \<Rightarrow> string list) \<Rightarrow> memory \<Rightarrow> string" where
  "get_learning_context set_order memory =
     (let recent_interactions = lastn 5 (interactions memory) in
      if recent_interactions = [] then ''No previous learning interactions in this session.''
      else
        let recent_topics = concat (map topics recent_interactions);
            recent_subjects = filter (\<lambda>s. s \<noteq> []) (map subject recent_interactions);
            part1 = (if recent_topics \<noteq> []
                     then [''Recent topics: '' @ join '', '' (set_order recent_topics)] else []);
            patterns = learning_patterns memory;
            part3 = (if patterns_nonempty patterns then
                       (case preferred_question_types patterns of
                          None \<Rightarrow> []
                        | Some types \<Rightarrow>
                            if types \<noteq> [] then [''Student prefers: '' @ join '', '' types] else [])
                     else []);
            part4 = (if patterns_nonempty patterns then
                       (case difficulty_trend patterns of
                          None \<Rightarrow> []
                        | Some trend \<Rightarrow>
                            if trend \<noteq> [] then [''Difficulty progression: '' @ trend] else [])
                     else [])
        in if recent_subjects \<noteq> [] then
             (case count_subjects recent_subjects of
                [] \<Rightarrow> ''Unable to retrieve learning context.''
              | x # xs \<Rightarrow>
                  join ''; '' (part1 @ [''Primary subject focus: '' @ fst (max_by snd x xs)]
                                @ part3 @ part4))
           else if part1 @ part3 @ part4 \<noteq> [] then join ''; '' (part1 @ part3 @ part4)
           else ''Beginning of learning session.'')"

text \<open>
  \<open>_format_duration\<close>. \<open>duration\<close> is a difference of two instants in microseconds;
  \<open>int(duration.total_seconds())\<close> drops the fraction towards zero. \<open>//\<close> and \<open>%\<close> are
  the floor division and remainder of Python, as \<open>div\<close> and \<open>mod\<close> on \<open>int\<close> are.
  \<open>total_seconds()\<close> is a float; its integer part is the exact quotient used here for
  durations below \<open>2 ^ 32\<close> seconds, and longer durations are outside the model.
\<close>

definition total_seconds :: "int \<Rightarrow> int" where
  "total_seconds duration = sgn duration * (\<bar>duration\<bar> div 1000000)"

definition format_duration :: "int \<Rightarrow> string" where
  "format_duration duration =
     (let secs = total_seconds duration in
      if secs < 60 then str_int secs @ '' seconds''
      else if secs < 3600 then str_int (secs div 60) @ '' minutes''
      else str_int (secs div 3600) @ ''h '' @ str_int ((secs mod 3600) div 60) @ ''m'')"

definition get_interaction_summary :: "memory \<Rightarrow> string" where
  "get_interaction_summary memory =
     (let history = interactions memory in
      if history = [] then ''No learning interactions recorded yet.''
      else
        let total_interactions = length history;
            subjects = filter (\<lambda>s. s \<noteq> []) (map subject history);
            subject_counts = count_subjects subjects;
            unique_topics = remdups (concat (map topics history));
            difficulties = map difficulty (lastn 10 history);
            session_duration =
              (if total_interactions > 1 then timestamp (last history) - timestamp (hd history) else 0)
        in join ''; ''
             [''Total interactions: '' @ str_nat total_interactions,
              ''Session duration: '' @ format_duration session_duration,
              ''Topics explored: '' @ str_nat (length unique_topics) @ '' unique topics'',
              ''Most discussed subject: '' @
                 (case subject_counts of [] \<Rightarrow> ''Various'' | x # xs \<Rightarrow> fst (max_by snd x xs)),
              ''Recent difficulty level: '' @
                 (if difficulties \<noteq> [] then last difficulties else ''Not assessed'')])"

definition get_subject_statistics :: "memory \<Rightarrow> (string \<times> nat) list" where
  "get_subject_statistics memory = count_subjects (map subject (interactions memory))"

section \<open>The tool router of \<open>learning_tools.py\<close>\<close>

subsection \<open>The registry\<close>

text \<open>The eighteen strategy methods of \<open>LearningTools\<close>, named as in the source.\<close>

datatype tool =
    solve_math_problem | explain_science_concept | help_with_coding | provide_formula_reference
  | assist_with_writing | analyze_literature | practice_language | check_grammar
  | create_history_timeline | help_with_geography | explain_economics | analyze_politics
  | explain_music_theory | analyze_artwork | assist_creative_writing
  | provide_test_strategy | generate_practice_problems | create_study_schedule

text \<open>The dictionary \<open>self.tools\<close> built by \<open>__init__\<close>.\<close>

definition tools :: "(string \<times> tool) list" where
  "tools =
    [(''math_solver'', solve_math_problem),
     (''science_explainer'', explain_science_concept),
     (''coding_helper'', help_with_coding),
     (''formula_reference'', provide_formula_reference),
     (''writing_assistant'', assist_with_writing),
     (''literature_analysis'', analyze_literature),
     (''language_practice'', practice_language),
     (''grammar_checker'', check_grammar),
     (''history_timeline'', create_history_timeline),
     (''geography_helper'', help_with_geography),
     (''economics_explainer'', explain_economics),
     (''political_analysis'', analyze_politics),
     (''music_theory'', explain_music_theory),
     (''art_analysis'', analyze_artwork),
     (''creative_writing'', assist_creative_writing),
     (''test_strategy'', provide_test_strategy),
     (''practice_problems'', generate_practice_problems),
     (''study_schedule'', create_study_schedule)]"

text \<open>The \<open>max_tokens\<close> argument of each strategy's request.\<close>

fun budget :: "tool \<Rightarrow> nat" where
  "budget provide_formula_reference = 600"
| "budget check_grammar = 600"
| "budget practice_language = 700"
| "budget help_with_geography = 700"
| "budget explain_economics = 700"
| "budget analyze_politics = 700"
| "budget explain_music_theory = 700"
| "budget analyze_artwork = 700"
| "budget assist_creative_writing = 700"
| "budget create_study_schedule = 700"
| "budget t = 800"

subsection \<open>The collaborators\<close>

text \<open>
  A request to \<open>client.chat.completions.create\<close>: the text of its single user message,
  \<open>max_tokens\<close>, and whether \<open>response_format\<close> asks for a JSON object.
\<close>

record request =
  content :: string
  max_tokens :: nat
  json_mode :: bool

text \<open>A value returned by \<open>json.loads\<close>.\<close>

datatype json =
    JNull | JBool bool | JNum int | JStr string | JArr "json list" | JObj "(string \<times> json) list"

text \<open>
  What the router does not own is a parameter: \<open>create\<close> is the language-model call,
  returning \<open>response.choices[0].message.content\<close> or failing; \<open>json_loads\<close> is the library
  parser; \<open>tool_prompt\<close> and \<open>strategy_prompt\<close> are the f-string templates, filled from
  the query and the profile \<open>'p\<close>; \<open>header\<close> is the fixed label that a strategy puts
  before the generated text.
\<close>

record 'p env =
  create :: "request \<Rightarrow> exn + string"
  json_loads :: "string \<Rightarrow> exn + json"
  tool_prompt :: "string \<Rightarrow> 'p \<Rightarrow> string"
  strategy_prompt :: "tool \<Rightarrow> string \<Rightarrow> 'p \<Rightarrow> string"
  header :: "tool \<Rightarrow> string"

subsection \<open>The strategies and \<open>analyze_and_respond\<close>\<close>

text \<open>
  Each strategy builds its prompt, makes one request and returns the header followed by the
  generated text. None of them has a handler: a failed request leaves the strategy as an
  exception.
\<close>

definition run_tool :: "'p env \<Rightarrow> tool \<Rightarrow> string \<Rightarrow> 'p \<Rightarrow> string \<Rightarrow> exn + string" where
  "run_tool env t query profile context =
     (case create env \<lparr>content = strategy_prompt env t query profile,
                       max_tokens = budget t, json_mode = False\<rparr> of
        Inl e \<Rightarrow> Inl e
      | Inr text \<Rightarrow> Inr (header env t @ text))"

text \<open>\<open>result.get("tool")\<close>: only a JSON object has the method; a missing key gives \<open>None\<close>.\<close>

fun dict_get :: "json \<Rightarrow> string \<Rightarrow> exn + json" where
  "dict_get (JObj kvs) k = Inr (case map_of kvs k of None \<Rightarrow> JNull | Some v \<Rightarrow> v)"
| "dict_get v k = Inl AttributeError"

text \<open>The truth value of a JSON value in \<open>if tool_name and ...\<close>.\<close>

fun truthy :: "json \<Rightarrow> bool" where
  "truthy JNull = False"
| "truthy (JBool b) = b"
| "truthy (JNum n) = (n \<noteq> 0)"
| "truthy (JStr s) = (s \<noteq> [])"
| "truthy (JArr xs) = (xs \<noteq> [])"
| "truthy (JObj kvs) = (kvs \<noteq> [])"

text \<open>
  \<open>tool_name in self.tools\<close>, then \<open>self.tools[tool_name]\<close>: a list or a dictionary
  cannot be hashed (\<open>TypeError\<close>); a number or a boolean is no key of the registry.
\<close>

fun registry_lookup :: "json \<Rightarrow> exn + tool option" where
  "registry_lookup (JStr s) = Inr (map_of tools s)"
| "registry_lookup (JArr xs) = Inl TypeError"
| "registry_lookup (JObj kvs) = Inl TypeError"
| "registry_lookup v = Inr None"

text \<open>The classification exchange: the request, the parse and the read of the field \<open>tool\<close>.\<close>

definition classify_tool :: "'p env \<Rightarrow> string \<Rightarrow> 'p \<Rightarrow> exn + json" where
  "classify_tool env query profile =
     (case create env \<lparr>content = tool_prompt env query profile,
                       max_tokens = 200, json_mode = True\<rparr> of
        Inl e \<Rightarrow> Inl e
      | Inr reply \<Rightarrow>
          (case json_loads env reply of
             Inl e \<Rightarrow> Inl e
           | Inr result \<Rightarrow> dict_get result ''tool''))"

text \<open>The \<open>try\<close> block of \<open>analyze_and_respond\<close>; the strategy is called inside it.\<close>

definition analyze_and_respond_body ::
  "'p env \<Rightarrow> string \<Rightarrow> 'p \<Rightarrow> string \<Rightarrow> exn + string option" where
  "analyze_and_respond_body env query profile context =
     (case classify_tool env query profile of
        Inl e \<Rightarrow> Inl e
      | Inr tool_name \<Rightarrow>
          if truthy tool_name then
            (case registry_lookup tool_name of
               Inl e \<Rightarrow> Inl e
             | Inr None \<Rightarrow> Inr None
             | Inr (Some t) \<Rightarrow>
                 (case run_tool env t query profile context of
                    Inl e \<Rightarrow> Inl e
                  | Inr text \<Rightarrow> Inr (Some text)))
          else Inr None)"

text \<open>The method: \<open>except Exception: return None\<close>.\<close>

definition analyze_and_respond ::
  "'p env \<Rightarrow> string \<Rightarrow> 'p \<Rightarrow> string \<Rightarrow> exn + string option" where
  "analyze_and_respond env query profile context =
     (case analyze_and_respond_body env query profile context of
        Inl e \<Rightarrow> Inr None
      | Inr r \<Rightarrow> Inr r)"

text \<open>
  Two environments for the examples below. In both the classifier answers with the tool
  \<open>math_solver\<close>; in the first the request of the strategy fails, in the second it
  returns a text.
\<close>

definition math_reply :: "string \<Rightarrow> exn + json" where
  "math_reply reply = Inr (JObj [(''tool'', JStr ''math_solver''), (''reasoning'', JStr ''an equation'')])"

definition failing_strategy_env :: "unit env" where
  "failing_strategy_env =
     \<lparr>create = (\<lambda>r. if json_mode r then Inr ''reply'' else Inl APIError),
      json_loads = math_reply,
      tool_prompt = (\<lambda>query profile. query),
      strategy_prompt = (\<lambda>t query profile. query),
      header = (\<lambda>t. ''Math Problem Solver: '')\<rparr>"

definition working_strategy_env :: "unit env" where
  "working_strategy_env =
     \<lparr>create = (\<lambda>r. if json_mode r then Inr ''reply'' else Inr ''x = 2''),
      json_loads = math_reply,
      tool_prompt = (\<lambda>query profile. query),
      strategy_prompt = (\<lambda>t query profile. query),
      header = (\<lambda>t. ''Math Problem Solver: '')\<rparr>"

section \<open>Notions used in the statements\<close>

text \<open>A string without an upper-case ASCII letter.\<close>

definition is_lower_str :: "string \<Rightarrow> bool" where
  "is_lower_str s = list_all (\<lambda>c. \<not> (65 \<le> (of_char c :: nat) \<and> (of_char c :: nat) \<le> 90)) s"

text \<open>\<open>m\<close> is the first item of \<open>ys\<close> whose key is maximal.\<close>

definition first_max :: "('a \<Rightarrow> nat) \<Rightarrow> 'a list \<Rightarrow> 'a \<Rightarrow> bool" where
  "first_max key ys m \<longleftrightarrow>
     (\<exists>ps ss. ys = ps @ m # ss \<and> (\<forall>p\<in>set ps. key p < key m) \<and> (\<forall>s\<in>set ss. key s \<le> key m))"

text \<open>The score of the \<open>i\<close>-th subject of \<open>subject_keywords\<close> for a query.\<close>

definition subject_score :: "nat \<Rightarrow> string \<Rightarrow> nat" where
  "subject_score i query = hits (snd (subject_keywords ! i)) (lower query)"

text \<open>
  Lower-casing as the specification means it, written without the program's \<open>lower\<close>: a
  capital letter goes to the small letter at the same place of the alphabet, every other
  character stays. The keyword \<open>k\<close> occurs in the lower-cased query \<open>q\<close> when some block
  of \<open>q\<close> goes to \<open>k\<close>, character by character; \<open>keyword_count\<close> counts the keywords of a
  list that do.
\<close>

definition ascii_upper :: string where
  "ascii_upper = ''ABCDEFGHIJKLMNOPQRSTUVWXYZ''"

definition ascii_lower :: string where
  "ascii_lower = ''abcdefghijklmnopqrstuvwxyz''"

definition lowers_to :: "char \<Rightarrow> char \<Rightarrow> bool" where
  "lowers_to c d \<longleftrightarrow>
     (case map_of (zip ascii_upper ascii_lower) c of Some l \<Rightarrow> d = l | None \<Rightarrow> d = c)"

definition occurs_lowered :: "string \<Rightarrow> string \<Rightarrow> bool" where
  "occurs_lowered k q \<longleftrightarrow> (\<exists>ps w ss. q = ps @ w @ ss \<and> list_all2 lowers_to w k)"

definition keyword_count :: "string list \<Rightarrow> string \<Rightarrow> nat" where
  "keyword_count ks q = length (filter (\<lambda>k. occurs_lowered k q) ks)"

text \<open>The number of keywords of the \<open>i\<close>-th subject that occur in the lower-cased query.\<close>

definition subject_count :: "nat \<Rightarrow> string \<Rightarrow> nat" where
  "subject_count i query = keyword_count (snd (subject_keywords ! i)) query"

text \<open>The interactions that a list of calls records: one for each call whose query is a \<open>str\<close>.\<close>

definition recorded :: "(int \<times> pyval \<times> pyval) list \<Rightarrow> interaction list" where
  "recorded calls =
     concat (map (\<lambda>(now, query, response).
        case new_interaction now query response of Inl e \<Rightarrow> [] | Inr i \<Rightarrow> [i]) calls)"

text \<open>
  The trend as the specification words it: defined from three samples on, by the first and
  the last of the three most recent samples, with beginner = 1, intermediate = 2 and
  advanced = 3. The third sample from the end and the last one are read by position.
\<close>

definition difficulty_rank :: "string \<Rightarrow> nat option" where
  "difficulty_rank d =
     (if d = ''beginner'' then Some 1
      else if d = ''intermediate'' then Some 2
      else if d = ''advanced'' then Some 3
      else None)"

definition trend_spec :: "string list \<Rightarrow> string option" where
  "trend_spec samples =
     (if length samples < 3 then None
      else
        case (difficulty_rank (samples ! (length samples - 3)),
              difficulty_rank (samples ! (length samples - 1))) of
          (Some a, Some b) \<Rightarrow>
            Some (if a < b then ''increasing'' else if b < a then ''decreasing'' else ''stable'')
        | _ \<Rightarrow> None)"

text \<open>The difficulty history of a memory, empty while the key is absent.\<close>

definition history_labels :: "memory \<Rightarrow> string list" where
  "history_labels m = (case difficulty_history (learning_patterns m) of None \<Rightarrow> [] | Some l \<Rightarrow> l)"

section \<open>Properties of the annotator\<close>

subsection \<open>Strings\<close>

lemma lower_char_not_upper: "\<not> (65 \<le> (of_char (lower_char c) :: nat) \<and> (of_char (lower_char c) :: nat) \<le> 90)"
  by (auto simp: lower_char_def Let_def)

lemma lower_char_idem: "lower_char (lower_char c) = lower_char c"
  using lower_char_not_upper[of c] unfolding lower_char_def[of "lower_char c"] Let_def by auto

lemma max_by_snoc: "max_by key x (xs @ [y]) = (if key (max_by key x xs) < key y then y else max_by key x xs)"
  by (simp add: max_by_def)

lemma first_maxI:
  "ys = ps @ m # ss \<Longrightarrow> (\<forall>p\<in>set ps. key p < key m) \<Longrightarrow> (\<forall>s\<in>set ss. key s \<le> key m) \<Longrightarrow> first_max key ys m"
  unfolding first_max_def by blast

lemma first_max_mem: "first_max key ys m \<Longrightarrow> m \<in> set ys"
  unfolding first_max_def by auto

lemma max_by_first_max: "first_max key (x # xs) (max_by key x xs)"
proof (induction xs rule: rev_induct)
  case Nil
  show ?case by (rule first_maxI[of _ "[]" _ "[]"]) (simp_all add: max_by_def)
next
  case (snoc y xs)
  then obtain ps ss where d: "x # xs = ps @ max_by key x xs # ss"
    and lt: "\<forall>p\<in>set ps. key p < key (max_by key x xs)"
    and le: "\<forall>s\<in>set ss. key s \<le> key (max_by key x xs)"
    unfolding first_max_def by blast
  show ?case
  proof (cases "key (max_by key x xs) < key y")
    case True
    have "\<forall>p\<in>set (x # xs). key p < key y"
    proof
      fix p assume "p \<in> set (x # xs)"
      then have "p \<in> set ps \<or> p = max_by key x xs \<or> p \<in> set ss" unfolding d by auto
      then show "key p < key y"
      proof (elim disjE)
        assume "p \<in> set ps" with lt True show ?thesis by fastforce
      next
        assume "p = max_by key x xs" with True show ?thesis by simp
      next
        assume "p \<in> set ss" with le True show ?thesis by fastforce
      qed
    qed
    then have "first_max key (x # xs @ [y]) y"
      by (intro first_maxI[of _ "x # xs" _ "[]"]) simp_all
    with True show ?thesis by (simp add: max_by_snoc)
  next
    case False
    have "x # xs @ [y] = ps @ max_by key x xs # (ss @ [y])" using d by simp
    moreover have "\<forall>s\<in>set (ss @ [y]). key s \<le> key (max_by key x xs)" using le False by auto
    ultimately have "first_max key (x # xs @ [y]) (max_by key x xs)"
      using lt by (intro first_maxI[of _ ps _ "ss @ [y]"])
    with False show ?thesis by (simp add: max_by_snoc)
  qed
qed

lemma filter_eq_append_ConsD:
  "filter P ys = ps @ m # ss \<Longrightarrow>
   \<exists>us vs. ys = us @ m # vs \<and> filter P us = ps \<and> filter P vs = ss"
proof (induction ps arbitrary: ys)
  case Nil
  then have "filter P ys = m # ss" by simp
  from filter_eq_ConsD[OF this] obtain us vs where "ys = us @ m # vs" "\<forall>u\<in>set us. \<not> P u" "ss = filter P vs"
    by blast
  then have "ys = us @ m # vs \<and> filter P us = [] \<and> filter P vs = ss" by simp
  then show ?case by (intro exI[of _ us] exI[of _ vs])
next
  case (Cons p ps)
  then have "filter P ys = p # (ps @ m # ss)" by simp
  from filter_eq_ConsD[OF this] obtain us vs where ys: "ys = us @ p # vs" and nu: "\<forall>u\<in>set us. \<not> P u"
    and pp: "P p" and r: "ps @ m # ss = filter P vs"
    by blast
  from Cons.IH[OF r[symmetric]] obtain us' vs' where "vs = us' @ m # vs'" "filter P us' = ps" "filter P vs' = ss"
    by blast
  then have "ys = (us @ p # us') @ m # vs' \<and> filter P (us @ p # us') = p # ps \<and> filter P vs' = ss"
    using ys nu pp by simp
  then show ?case by (intro exI[of _ "us @ p # us'"] exI[of _ vs'])
qed

lemma first_max_filter:
  assumes "first_max key (filter (\<lambda>y. 0 < key y) ys) m"
  shows "first_max key ys m"
proof -
  from assms obtain ps ss where d: "filter (\<lambda>y. 0 < key y) ys = ps @ m # ss"
    and lt: "\<forall>p\<in>set ps. key p < key m" and le: "\<forall>s\<in>set ss. key s \<le> key m"
    unfolding first_max_def by blast
  have "m \<in> set (filter (\<lambda>y. 0 < key y) ys)" unfolding d by simp
  then have pos: "0 < key m" by simp
  from filter_eq_append_ConsD[OF d] obtain us vs where ys: "ys = us @ m # vs"
    and fu: "filter (\<lambda>y. 0 < key y) us = ps" and fv: "filter (\<lambda>y. 0 < key y) vs = ss" by blast
  have "\<forall>p\<in>set us. key p < key m"
  proof
    fix p assume "p \<in> set us"
    show "key p < key m"
    proof (cases "0 < key p")
      case True with \<open>p \<in> set us\<close> fu have "p \<in> set ps" by auto
      with lt show ?thesis by simp
    next
      case False with pos show ?thesis by simp
    qed
  qed
  moreover have "\<forall>s\<in>set vs. key s \<le> key m"
  proof
    fix s assume "s \<in> set vs"
    show "key s \<le> key m"
    proof (cases "0 < key s")
      case True with \<open>s \<in> set vs\<close> fv have "s \<in> set ss" by auto
      with le show ?thesis by simp
    next
      case False then show ?thesis by simp
    qed
  qed
  ultimately show ?thesis using ys by (intro first_maxI[of _ us _ vs])
qed


lemma py_in_sublist: "py_in k q = sublist k q"
  by (induction q) (simp_all add: sublist_Cons_right)

lemma lower_idem: "lower (lower s) = lower s"
  by (simp add: lower_def lower_char_idem)

lemma lower_fixed: "is_lower_str s \<Longrightarrow> lower s = s"
  by (induction s) (auto simp: is_lower_str_def lower_def lower_char_def Let_def)

lemma py_in_lower_mono: "is_lower_str k \<Longrightarrow> py_in k q \<Longrightarrow> py_in k (lower q)"
  using map_mono_sublist[of k q lower_char] lower_fixed[of k]
  by (simp add: py_in_sublist lower_def)

lemma upper_not_in_lower:
  assumes "c \<in> set k" "65 \<le> (of_char c :: nat)" "(of_char c :: nat) \<le> 90"
  shows "\<not> py_in k (lower q)"
proof
  assume "py_in k (lower q)"
  then have "set k \<subseteq> set (lower q)" by (simp add: py_in_sublist set_mono_sublist)
  with assms(1) obtain d where "c = lower_char d" by (auto simp: lower_def)
  with assms(2,3) lower_char_not_upper[of d] show False by simp
qed

lemma hits_zero_iff: "hits ks q = 0 \<longleftrightarrow> (\<forall>k\<in>set ks. \<not> py_in k q)"
  by (simp add: hits_def filter_empty_conv)

lemma hits_pos_iff: "0 < hits ks q \<longleftrightarrow> (\<exists>k\<in>set ks. py_in k q)"
  using hits_zero_iff[of ks q] by auto

lemma upper_table: "\<forall>c\<in>set ascii_upper.
    lower_char c = (case map_of (zip ascii_upper ascii_lower) c of Some l \<Rightarrow> l | None \<Rightarrow> c)"
  by code_simp

lemma upper_range: "\<forall>n\<in>set [65..<91]. char_of (n::nat) \<in> set ascii_upper"
  by code_simp

lemma upper_codes: "\<forall>c\<in>set ascii_upper. 65 \<le> (of_char c :: nat) \<and> (of_char c :: nat) \<le> 90"
  by code_simp

lemma in_ascii_upper_iff:
  "c \<in> set ascii_upper \<longleftrightarrow> 65 \<le> (of_char c :: nat) \<and> (of_char c :: nat) \<le> 90"
proof
  assume "c \<in> set ascii_upper"
  with upper_codes show "65 \<le> (of_char c :: nat) \<and> (of_char c :: nat) \<le> 90" by blast
next
  assume "65 \<le> (of_char c :: nat) \<and> (of_char c :: nat) \<le> 90"
  then have "(of_char c :: nat) \<in> {65..<91}" by auto
  then have "(of_char c :: nat) \<in> set [65..<91]" by (simp only: set_upt)
  with upper_range have "char_of (of_char c :: nat) \<in> set ascii_upper" by blast
  then show "c \<in> set ascii_upper" by simp
qed

lemma map_of_upper_None: "c \<notin> set ascii_upper \<Longrightarrow> map_of (zip ascii_upper ascii_lower) c = None"
  by (simp add: map_of_eq_None_iff ascii_upper_def ascii_lower_def)

lemma lower_char_table:
  "lower_char c = (case map_of (zip ascii_upper ascii_lower) c of Some l \<Rightarrow> l | None \<Rightarrow> c)"
proof (cases "c \<in> set ascii_upper")
  case True
  with upper_table show ?thesis by blast
next
  case False
  then have "lower_char c = c" unfolding in_ascii_upper_iff lower_char_def Let_def by auto
  with map_of_upper_None[OF False] show ?thesis by simp
qed

lemma lowers_to_iff: "lowers_to c d \<longleftrightarrow> lower_char c = d"
  unfolding lowers_to_def lower_char_table by (auto split: option.splits)

lemma list_all2_lowers_to: "list_all2 lowers_to w k \<longleftrightarrow> map lower_char w = k"
proof
  assume "list_all2 lowers_to w k"
  then show "map lower_char w = k"
    by (induction rule: list_all2_induct) (simp_all add: lowers_to_iff)
next
  assume "map lower_char w = k"
  then have "k = map lower_char w" by simp
  then show "list_all2 lowers_to w k"
    by (simp add: list_all2_map2 list_all2_same lowers_to_iff)
qed

lemma occurs_lowered_iff: "occurs_lowered k q \<longleftrightarrow> py_in k (lower q)"
proof
  assume "occurs_lowered k q"
  then obtain ps w ss where q: "q = ps @ w @ ss" and w: "map lower_char w = k"
    unfolding occurs_lowered_def list_all2_lowers_to by blast
  have "lower q = map lower_char ps @ k @ map lower_char ss"
    unfolding q lower_def using w by simp
  then show "py_in k (lower q)" unfolding py_in_sublist sublist_def by blast
next
  assume "py_in k (lower q)"
  then obtain ps ss where "map lower_char q = ps @ k @ ss"
    unfolding py_in_sublist sublist_def lower_def by blast
  then obtain us vs where q1: "q = us @ vs" and "ps = map lower_char us"
    and "k @ ss = map lower_char vs"
    unfolding map_eq_append_conv by blast
  then obtain w vs' where "vs = w @ vs'" and "k = map lower_char w"
    using map_eq_append_conv[of lower_char vs k ss] by metis
  with q1 show "occurs_lowered k q"
    unfolding occurs_lowered_def list_all2_lowers_to by blast
qed

lemma keyword_count_hits: "keyword_count ks q = hits ks (lower q)"
  by (simp add: keyword_count_def hits_def occurs_lowered_iff)

lemma subject_count_score: "subject_count i query = subject_score i query"
  by (simp add: subject_count_def subject_score_def keyword_count_hits)

subsection \<open>Topics\<close>

text \<open>
  Claim C9. For every query, \<open>extract_topics\<close> returns at most three strings, each of them
  one of the fixed keywords (the math, science, language and history lists, concatenated in
  that order): the first three keywords, in list order, that occur in the query when its
  capital letters are read as small ones. So \<open>MODERN WARFARE IN THE 20TH CENTURY\<close> gives
  war, modern, century; a query with four keywords gives the first three of the list; the
  order is that of the list and not that of the query.
\<close>

theorem extract_topics_bounded:
  "length (extract_topics query) \<le> 3 \<and>
   set (extract_topics query) \<subseteq>
     set (math_keywords @ science_keywords @ language_keywords @ history_keywords) \<and>
   extract_topics query =
     take 3 (filter (\<lambda>keyword. occurs_lowered keyword query)
       (math_keywords @ science_keywords @ language_keywords @ history_keywords)) \<and>
   extract_topics ''MODERN WARFARE IN THE 20TH CENTURY'' = [''war'', ''modern'', ''century''] \<and>
   extract_topics ''Algebra, Geometry, Calculus and Physics'' = [''algebra'', ''geometry'', ''calculus''] \<and>
   extract_topics ''physics before an Equation'' = [''equation'', ''physics''] \<and>
   extract_topics ''hello'' = []"
proof -
  let ?vocabulary = "math_keywords @ science_keywords @ language_keywords @ history_keywords"
  have e: "extract_topics query = take 3 (filter (\<lambda>keyword. occurs_lowered keyword query) ?vocabulary)"
    by (simp add: extract_topics_def Let_def all_keywords_def occurs_lowered_iff)
  have l: "length (extract_topics query) \<le> 3" unfolding e by simp
  have "set (take 3 (filter (\<lambda>keyword. occurs_lowered keyword query) ?vocabulary))
      \<subseteq> set (filter (\<lambda>keyword. occurs_lowered keyword query) ?vocabulary)"
    by (rule set_take_subset)
  also have "\<dots> \<subseteq> set ?vocabulary" by (rule filter_is_subset)
  finally have s: "set (extract_topics query) \<subseteq> set ?vocabulary" unfolding e .
  have 1: "extract_topics ''MODERN WARFARE IN THE 20TH CENTURY'' = [''war'', ''modern'', ''century'']"
    by code_simp
  have 2: "extract_topics ''Algebra, Geometry, Calculus and Physics'' = [''algebra'', ''geometry'', ''calculus'']"
    by code_simp
  have 3: "extract_topics ''physics before an Equation'' = [''equation'', ''physics'']"
    by code_simp
  have 4: "extract_topics ''hello'' = []" by code_simp
  from l s e 1 2 3 4 show ?thesis by (intro conjI)
qed

theorem extract_topics_bounded_witness:
  "take 3 (filter (\<lambda>keyword. occurs_lowered keyword ''Quantum PHYSICS of the Atom'')
     (math_keywords @ science_keywords @ language_keywords @ history_keywords))
   = [''physics'', ''atom'']"
proof -
  have v: "extract_topics ''Quantum PHYSICS of the Atom'' = [''physics'', ''atom'']" by code_simp
  note extract_topics_bounded[of "''Quantum PHYSICS of the Atom''", THEN conjunct2, THEN conjunct2,
      THEN conjunct1]
  then show ?thesis using v by (rule trans[OF sym])
qed

subsection \<open>Difficulty\<close>

lemma estimate_difficulty_counts:
  "estimate_difficulty query =
     (if keyword_count basic_indicators query < keyword_count advanced_indicators query
        then ''advanced''
      else if 0 < keyword_count basic_indicators query then ''beginner''
      else ''intermediate'')"
  by (simp add: estimate_difficulty_def Let_def keyword_count_hits)

text \<open>
  Claim C4. For every query, \<open>estimate_difficulty\<close> returns one of beginner, intermediate
  and advanced: advanced if the advanced indicators that occur in the query, capital
  letters read as small ones, are strictly more than the basic ones, else beginner if a
  basic indicator occurs, else intermediate. So an equal, non-zero count on both sides
  gives beginner, and so does a query that contains \<open>explain\<close> and no advanced indicator.
  Two advanced indicators against one basic give advanced, one against one gives beginner,
  one against four gives beginner, and a query without any indicator gives intermediate.
\<close>

theorem estimate_difficulty_rule:
  "estimate_difficulty query \<in> {''beginner'', ''intermediate'', ''advanced''} \<and>
   estimate_difficulty query =
     (if keyword_count basic_indicators query < keyword_count advanced_indicators query
        then ''advanced''
      else if 0 < keyword_count basic_indicators query then ''beginner''
      else ''intermediate'') \<and>
   (keyword_count advanced_indicators query = keyword_count basic_indicators query \<and>
    0 < keyword_count basic_indicators query \<longrightarrow> estimate_difficulty query = ''beginner'') \<and>
   (sublist ''explain'' query \<and> keyword_count advanced_indicators query = 0
      \<longrightarrow> estimate_difficulty query = ''beginner'') \<and>
   estimate_difficulty ''ANALYZE and EVALUATE: what is entropy'' = ''advanced'' \<and>
   estimate_difficulty ''Explain the THEOREM'' = ''beginner'' \<and>
   estimate_difficulty ''What is a Simple, Basic introduction to Quantum theory'' = ''beginner'' \<and>
   estimate_difficulty ''Photosynthesis in plants'' = ''intermediate'' \<and>
   estimate_difficulty ''quantum'' = ''advanced''"
proof -
  note r = estimate_difficulty_counts[of query]
  have a: "estimate_difficulty query \<in> {''beginner'', ''intermediate'', ''advanced''}"
    unfolding r by simp
  have c: "estimate_difficulty query = ''beginner''"
    if "keyword_count advanced_indicators query = keyword_count basic_indicators query \<and>
        0 < keyword_count basic_indicators query"
    unfolding r using that by simp
  have d: "estimate_difficulty query = ''beginner''"
    if h: "sublist ''explain'' query \<and> keyword_count advanced_indicators query = 0"
  proof -
    have "is_lower_str ''explain''" by (simp add: is_lower_str_def)
    with h py_in_lower_mono[of "''explain''" query] have "py_in ''explain'' (lower query)"
      by (simp add: py_in_sublist)
    moreover have "''explain'' \<in> set basic_indicators" by (simp add: basic_indicators_def)
    ultimately have "0 < hits basic_indicators (lower query)" unfolding hits_pos_iff by blast
    then have "0 < keyword_count basic_indicators query" by (simp add: keyword_count_hits)
    with h show ?thesis unfolding r by simp
  qed
  have 1: "estimate_difficulty ''ANALYZE and EVALUATE: what is entropy'' = ''advanced''"
    by code_simp
  have 2: "estimate_difficulty ''Explain the THEOREM'' = ''beginner''" by code_simp
  have 3: "estimate_difficulty ''What is a Simple, Basic introduction to Quantum theory'' = ''beginner''"
    by code_simp
  have 4: "estimate_difficulty ''Photosynthesis in plants'' = ''intermediate''" by code_simp
  have 5: "estimate_difficulty ''quantum'' = ''advanced''" by code_simp
  from c have c': "keyword_count advanced_indicators query = keyword_count basic_indicators query \<and>
    0 < keyword_count basic_indicators query \<longrightarrow> estimate_difficulty query = ''beginner''"
    by (rule impI)
  from d have d': "sublist ''explain'' query \<and> keyword_count advanced_indicators query = 0
      \<longrightarrow> estimate_difficulty query = ''beginner''" by (rule impI)
  from a r c' d' 1 2 3 4 5 show ?thesis by (intro conjI)
qed

theorem estimate_difficulty_rule_witness:
  "estimate_difficulty ''Evaluate this: explain the Theorem in simple terms'' = ''beginner'' \<and>
   estimate_difficulty ''please explain gravity'' = ''beginner'' \<and>
   keyword_count advanced_indicators ''Evaluate this: explain the Theorem in simple terms'' = 2 \<and>
   keyword_count basic_indicators ''Evaluate this: explain the Theorem in simple terms'' = 2"
proof -
  let ?Q = "''Evaluate this: explain the Theorem in simple terms''"
  have ka: "hits advanced_indicators (lower ?Q) = 2" by code_simp
  have kb: "hits basic_indicators (lower ?Q) = 2" by code_simp
  have a: "keyword_count advanced_indicators ?Q = 2" unfolding keyword_count_hits by (rule ka)
  have b: "keyword_count basic_indicators ?Q = 2" unfolding keyword_count_hits by (rule kb)
  have tie: "keyword_count advanced_indicators ?Q = keyword_count basic_indicators ?Q \<and>
      0 < keyword_count basic_indicators ?Q" unfolding a b by simp
  note estimate_difficulty_rule[of ?Q, THEN conjunct2, THEN conjunct2, THEN conjunct1]
  from this tie have 1: "estimate_difficulty ?Q = ''beginner''" by (rule mp)
  have s: "sublist ''explain'' ''please explain gravity''" by code_simp
  have "hits advanced_indicators (lower ''please explain gravity'') = 0" by code_simp
  then have z: "keyword_count advanced_indicators ''please explain gravity'' = 0"
    unfolding keyword_count_hits .
  note estimate_difficulty_rule[of "''please explain gravity''", THEN conjunct2, THEN conjunct2,
      THEN conjunct2, THEN conjunct1]
  from this conjI[OF s z] have 2: "estimate_difficulty ''please explain gravity'' = ''beginner''"
    by (rule mp)
  from 1 2 a b show ?thesis by (intro conjI)
qed

subsection \<open>Subject\<close>

lemma subject_scores_alt:
  "subject_scores q' = filter (\<lambda>y. 0 < snd y) (map (\<lambda>p. (fst p, hits (snd p) q')) subject_keywords)"
  by (simp add: subject_scores_def case_prod_unfold)

lemma General_not_subject: "''General'' \<notin> fst ` set subject_keywords"
  by (simp add: subject_keywords_def)

lemma length_subject_keywords: "length subject_keywords = 10"
  by (simp add: subject_keywords_def)

lemma identify_subject_General_iff:
  "identify_subject query = ''General'' \<longleftrightarrow> (\<forall>i<length subject_keywords. subject_score i query = 0)"
proof -
  let ?L = "map (\<lambda>p. (fst p, hits (snd p) (lower query))) subject_keywords"
  show ?thesis
  proof (cases "subject_scores (lower query)")
    case Nil
    then have "\<forall>y\<in>set ?L. \<not> 0 < snd y" unfolding subject_scores_alt filter_empty_conv by simp
    then have "\<forall>i<length subject_keywords. subject_score i query = 0"
      by (simp add: subject_score_def)
    with Nil show ?thesis by (simp add: identify_subject_def)
  next
    case (Cons x xs)
    let ?m = "max_by snd x xs"
    have fm: "first_max snd ?L ?m"
      using max_by_first_max[of snd x xs] Cons first_max_filter[of snd ?L ?m]
      by (simp add: subject_scores_alt)
    then obtain ps ss where d: "?L = ps @ ?m # ss" unfolding first_max_def by blast
    have "?m \<in> set (subject_scores (lower query))"
      using first_max_mem[OF max_by_first_max[of snd x xs]] unfolding Cons .
    then have pos: "0 < snd ?m" unfolding subject_scores_alt by simp
    have "?m \<in> set ?L" unfolding d by simp
    then obtain i where i: "i < length subject_keywords" "?m = ?L ! i"
      unfolding in_set_conv_nth by auto
    then have "?m = (fst (subject_keywords ! i), subject_score i query)"
      by (simp add: subject_score_def)
    then have "fst ?m = fst (subject_keywords ! i)" "snd ?m = subject_score i query"
      by (simp_all only: fst_conv snd_conv)
    moreover have "fst (subject_keywords ! i) \<noteq> ''General''"
      using General_not_subject nth_mem[OF i(1)] by (metis imageI)
    ultimately have "fst ?m \<noteq> ''General''" "\<not> (\<forall>i<length subject_keywords. subject_score i query = 0)"
      using i(1) pos by auto
    with Cons show ?thesis by (simp add: identify_subject_def)
  qed
qed

lemma identify_subject_max:
  assumes "\<exists>i<length subject_keywords. 0 < subject_score i query"
  shows "\<exists>i<length subject_keywords. identify_subject query = fst (subject_keywords ! i) \<and>
           (\<forall>j<length subject_keywords. subject_score j query \<le> subject_score i query) \<and>
           (\<forall>j<i. subject_score j query < subject_score i query)"
proof -
  let ?L = "map (\<lambda>p. (fst p, hits (snd p) (lower query))) subject_keywords"
  have nth: "?L ! j = (fst (subject_keywords ! j), subject_score j query)" if "j < length subject_keywords" for j
    using that by (simp add: subject_score_def)
  from assms obtain x xs where Cons: "subject_scores (lower query) = x # xs"
    using identify_subject_General_iff[of query]
    by (cases "subject_scores (lower query)") (auto simp: identify_subject_def)
  let ?m = "max_by snd x xs"
  have "first_max snd ?L ?m"
    using max_by_first_max[of snd x xs] Cons first_max_filter[of snd ?L ?m]
    by (simp add: subject_scores_alt)
  then obtain ps ss where d: "?L = ps @ ?m # ss" and lt: "\<forall>p\<in>set ps. snd p < snd ?m"
    and le: "\<forall>s\<in>set ss. snd s \<le> snd ?m" unfolding first_max_def by blast
  let ?i = "length ps"
  have len: "length ?L = length ps + Suc (length ss)" unfolding d by simp
  then have i: "?i < length subject_keywords" by simp
  have m: "?L ! ?i = ?m" unfolding d by simp
  with nth[OF i] have fm: "fst ?m = fst (subject_keywords ! ?i)" and sm: "snd ?m = subject_score ?i query"
    by simp_all
  have "subject_score j query \<le> subject_score ?i query" if "j < length subject_keywords" for j
  proof -
    have "?L ! j \<in> set ?L" using that by (intro nth_mem) simp
    then have "?L ! j \<in> set ps \<or> ?L ! j = ?m \<or> ?L ! j \<in> set ss" unfolding d by auto
    then have "snd (?L ! j) \<le> snd ?m" using lt le by (auto intro: less_imp_le)
    then show ?thesis unfolding nth[OF that] sm by simp
  qed
  moreover have "subject_score j query < subject_score ?i query" if "j < ?i" for j
  proof -
    have "?L ! j = ps ! j" unfolding d using that by (simp add: nth_append)
    then have "?L ! j \<in> set ps" using that by simp
    with lt have "snd (?L ! j) < snd ?m" by blast
    moreover have "j < length subject_keywords" using that i by simp
    ultimately show ?thesis using nth[of j] sm by simp
  qed
  moreover have "identify_subject query = fst (subject_keywords ! ?i)"
    using Cons fm by (simp add: identify_subject_def)
  ultimately show ?thesis using i by blast
qed


text \<open>
  Claim C5. For every query, \<open>identify_subject\<close> returns \<open>General\<close> exactly when no subject
  has a keyword that occurs in the query, capital letters read as small ones; otherwise it
  returns the subject with the greatest number of such keywords, and among several with
  that number the one that comes first in the fixed list of ten subjects. So one
  Mathematics keyword against two English ones gives English, and one Physics keyword with
  one Mathematics keyword gives Mathematics, whichever comes first in the query.
\<close>

theorem identify_subject_first_maximum:
  "length subject_keywords = 10 \<and>
   (identify_subject query = ''General'' \<longleftrightarrow>
      (\<forall>i<length subject_keywords. subject_count i query = 0)) \<and>
   ((\<exists>i<length subject_keywords. 0 < subject_count i query) \<longrightarrow>
      (\<exists>i<length subject_keywords.
          identify_subject query = fst (subject_keywords ! i) \<and>
          (\<forall>j<length subject_keywords. subject_count j query \<le> subject_count i query) \<and>
          (\<forall>j<i. subject_count j query < subject_count i query))) \<and>
   identify_subject ''math essay writing'' = ''English'' \<and>
   identify_subject ''physics and algebra'' = ''Mathematics'' \<and>
   identify_subject ''What Is A CELL'' = ''Biology'' \<and>
   identify_subject ''hello there'' = ''General''"
proof -
  have g: "identify_subject query = ''General'' \<longleftrightarrow>
      (\<forall>i<length subject_keywords. subject_count i query = 0)"
    unfolding subject_count_score by (rule identify_subject_General_iff)
  have m: "(\<exists>i<length subject_keywords. 0 < subject_count i query) \<longrightarrow>
      (\<exists>i<length subject_keywords.
          identify_subject query = fst (subject_keywords ! i) \<and>
          (\<forall>j<length subject_keywords. subject_count j query \<le> subject_count i query) \<and>
          (\<forall>j<i. subject_count j query < subject_count i query))"
    unfolding subject_count_score using identify_subject_max[of query] by (rule impI)
  have 1: "identify_subject ''math essay writing'' = ''English''" by code_simp
  have 2: "identify_subject ''physics and algebra'' = ''Mathematics''" by code_simp
  have 3: "identify_subject ''What Is A CELL'' = ''Biology''" by code_simp
  have 4: "identify_subject ''hello there'' = ''General''" by code_simp
  from length_subject_keywords g m 1 2 3 4 show ?thesis by (intro conjI)
qed

theorem identify_subject_first_maximum_witness:
  "identify_subject ''Algebra after PHYSICS'' = ''Mathematics'' \<and>
   identify_subject ''a poem and an essay about math'' = ''English''"
proof -
  have len: "length subject_keywords = 10" by (rule length_subject_keywords)
  have sk0: "fst (subject_keywords ! 0) = ''Mathematics''" by (simp add: subject_keywords_def)
  have sk5: "fst (subject_keywords ! 5) = ''English''" by (simp add: subject_keywords_def)
  have tie: "identify_subject ''Algebra after PHYSICS'' = ''Mathematics''"
  proof -
    let ?Q = "''Algebra after PHYSICS''"
    have s0: "subject_score 0 ?Q = 1" by code_simp
    have s1: "subject_score 1 ?Q = 1" by code_simp
    have others: "\<forall>i\<in>set [0..<10]. 1 \<le> subject_score i ?Q \<longrightarrow> i = 0 \<or> i = 1" by code_simp
    have "\<exists>i<length subject_keywords. 0 < subject_count i ?Q"
      using s0 len by (intro exI[of _ 0]) (simp add: subject_count_score)
    with identify_subject_first_maximum[of ?Q]
    obtain i where i: "i < length subject_keywords"
      "identify_subject ?Q = fst (subject_keywords ! i)"
      "\<forall>j<length subject_keywords. subject_count j ?Q \<le> subject_count i ?Q"
      "\<forall>j<i. subject_count j ?Q < subject_count i ?Q"
      by blast
    have "0 < length subject_keywords" using len by simp
    with i(3) have "subject_count 0 ?Q \<le> subject_count i ?Q" by blast
    with s0 have "1 \<le> subject_score i ?Q" by (simp add: subject_count_score)
    with others i(1) len have "i = 0 \<or> i = 1" by simp
    moreover have "i \<noteq> 1"
    proof
      assume "i = 1"
      with i(4) have "subject_count 0 ?Q < subject_count 1 ?Q" by simp
      with s0 s1 show False by (simp add: subject_count_score)
    qed
    ultimately have "i = 0" by simp
    with i(2) sk0 show ?thesis by (simp only:)
  qed
  have most: "identify_subject ''a poem and an essay about math'' = ''English''"
  proof -
    let ?Q = "''a poem and an essay about math''"
    have s5: "subject_score 5 ?Q = 2" by code_simp
    have others: "\<forall>i\<in>set [0..<10]. 2 \<le> subject_score i ?Q \<longrightarrow> i = 5" by code_simp
    have "\<exists>i<length subject_keywords. 0 < subject_count i ?Q"
      using s5 len by (intro exI[of _ 5]) (simp add: subject_count_score)
    with identify_subject_first_maximum[of ?Q]
    obtain i where i: "i < length subject_keywords"
      "identify_subject ?Q = fst (subject_keywords ! i)"
      "\<forall>j<length subject_keywords. subject_count j ?Q \<le> subject_count i ?Q"
      by blast
    have "5 < length subject_keywords" using len by simp
    with i(3) have "subject_count 5 ?Q \<le> subject_count i ?Q" by blast
    with s5 have "2 \<le> subject_score i ?Q" by (simp add: subject_count_score)
    with others i(1) len have "i = 5" by simp
    with i(2) sk5 show ?thesis by (simp only:)
  qed
  from tie most show ?thesis by (rule conjI)
qed

lemma dna_not_in_lower: "\<not> py_in ''DNA'' (lower q)"
  by (rule upper_not_in_lower[of "CHR ''D''"]) simp_all

lemma hits_removeAll: "\<not> py_in k q \<Longrightarrow> hits (removeAll k ks) q = hits ks q"
  by (induction ks) (auto simp: hits_def)

text \<open>
  Claim C10. The Biology keyword \<open>DNA\<close> never counts: the query is lower-cased before the
  case-sensitive test, and the keyword is stored in upper case. The Biology score of every
  query is the score of the six other Biology keywords, and a query in which no subject
  keyword other than \<open>DNA\<close> occurs, such as \<open>What is DNA?\<close>, is labelled \<open>General\<close>.
\<close>

theorem dna_never_scores:
  "fst (subject_keywords ! 3) = ''Biology'' \<and>
   ''DNA'' \<in> set (snd (subject_keywords ! 3)) \<and>
   \<not> py_in ''DNA'' (lower query) \<and>
   subject_score 3 query = hits (removeAll ''DNA'' (snd (subject_keywords ! 3))) (lower query) \<and>
   ((\<forall>i<length subject_keywords. \<forall>k\<in>set (snd (subject_keywords ! i)).
        k \<noteq> ''DNA'' \<longrightarrow> \<not> py_in k (lower query))
      \<longrightarrow> identify_subject query = ''General'') \<and>
   identify_subject ''What is DNA?'' = ''General''"
proof -
  have a: "fst (subject_keywords ! 3) = ''Biology''" by (simp add: subject_keywords_def)
  have b: "''DNA'' \<in> set (snd (subject_keywords ! 3))" by (simp add: subject_keywords_def)
  have c: "\<not> py_in ''DNA'' (lower query)" by (rule dna_not_in_lower)
  have d: "subject_score 3 query = hits (removeAll ''DNA'' (snd (subject_keywords ! 3))) (lower query)"
    unfolding subject_score_def using hits_removeAll[OF c] by simp
  have e: "identify_subject query = ''General''"
    if h: "\<forall>i<length subject_keywords. \<forall>k\<in>set (snd (subject_keywords ! i)).
        k \<noteq> ''DNA'' \<longrightarrow> \<not> py_in k (lower query)"
  proof -
    have "subject_score i query = 0" if "i < length subject_keywords" for i
      unfolding subject_score_def hits_zero_iff
    proof
      fix k assume k: "k \<in> set (snd (subject_keywords ! i))"
      show "\<not> py_in k (lower query)"
      proof (cases "k = ''DNA''")
        case True with c show ?thesis by simp
      next
        case False
        from h that have "\<forall>k\<in>set (snd (subject_keywords ! i)).
            k \<noteq> ''DNA'' \<longrightarrow> \<not> py_in k (lower query)" by simp
        with k False show ?thesis by simp
      qed
    qed
    then show ?thesis unfolding identify_subject_General_iff by simp
  qed
  then have e': "(\<forall>i<length subject_keywords. \<forall>k\<in>set (snd (subject_keywords ! i)).
        k \<noteq> ''DNA'' \<longrightarrow> \<not> py_in k (lower query))
      \<longrightarrow> identify_subject query = ''General''" by (rule impI)
  have f: "identify_subject ''What is DNA?'' = ''General''" by code_simp
  from a b c d e' f show ?thesis by (intro conjI)
qed

theorem dna_never_scores_witness:
  "identify_subject ''Is DNA a helix?'' = ''General'' \<and> sublist ''DNA'' ''Is DNA a helix?''"
proof -
  have "\<forall>i\<in>set [0..<10]. \<forall>k\<in>set (snd (subject_keywords ! i)).
        k \<noteq> ''DNA'' \<longrightarrow> \<not> py_in k (lower ''Is DNA a helix?'')" by code_simp
  then have "\<forall>i<length subject_keywords. \<forall>k\<in>set (snd (subject_keywords ! i)).
        k \<noteq> ''DNA'' \<longrightarrow> \<not> py_in k (lower ''Is DNA a helix?'')"
    by (simp add: length_subject_keywords)
  moreover note dna_never_scores[of "''Is DNA a helix?''", THEN conjunct2, THEN conjunct2,
      THEN conjunct2, THEN conjunct2, THEN conjunct1]
  ultimately have "identify_subject ''Is DNA a helix?'' = ''General''"
    by (rule rev_mp)
  moreover have "sublist ''DNA'' ''Is DNA a helix?''" by code_simp
  ultimately show ?thesis by simp
qed

subsection \<open>A worked query\<close>

text \<open>
  The query \<open>Explain how cellular respiration works\<close> is not labelled intermediate: its
  lower-cased text contains the basic indicator \<open>explain\<close>.
\<close>

theorem cellular_respiration_counterexample:
  "\<not> (identify_subject ''Explain how cellular respiration works'' = ''Biology'' \<and>
      estimate_difficulty ''Explain how cellular respiration works'' = ''intermediate'' \<and>
      classify_question_type ''Explain how cellular respiration works'' = ''conceptual'')"
proof -
  have "estimate_difficulty ''Explain how cellular respiration works'' = ''beginner''" by code_simp
  then show ?thesis by simp
qed

text \<open>
  Claim C7, as amended. For the query \<open>Explain how cellular respiration works\<close>,
  \<open>identify_subject\<close> returns \<open>Biology\<close> (the keyword \<open>cell\<close> occurs inside \<open>cellular\<close>,
  and it is the only hit), \<open>estimate_difficulty\<close> returns \<open>beginner\<close> (the basic indicator
  \<open>explain\<close> occurs and no advanced indicator does), and \<open>classify_question_type\<close>
  returns \<open>conceptual\<close>.
\<close>

theorem cellular_respiration_annotation:
  "identify_subject ''Explain how cellular respiration works'' = ''Biology'' \<and>
   py_in ''cell'' (lower ''Explain how cellular respiration works'') \<and>
   subject_score 3 ''Explain how cellular respiration works'' = 1 \<and>
   estimate_difficulty ''Explain how cellular respiration works'' = ''beginner'' \<and>
   py_in ''explain'' (lower ''Explain how cellular respiration works'') \<and>
   hits advanced_indicators (lower ''Explain how cellular respiration works'') = 0 \<and>
   classify_question_type ''Explain how cellular respiration works'' = ''conceptual''"
proof -
  have 1: "identify_subject ''Explain how cellular respiration works'' = ''Biology''" by code_simp
  have 2: "py_in ''cell'' (lower ''Explain how cellular respiration works'')" by code_simp
  have 3: "subject_score 3 ''Explain how cellular respiration works'' = 1" by code_simp
  have 4: "estimate_difficulty ''Explain how cellular respiration works'' = ''beginner''" by code_simp
  have 5: "py_in ''explain'' (lower ''Explain how cellular respiration works'')" by code_simp
  have 6: "hits advanced_indicators (lower ''Explain how cellular respiration works'') = 0" by code_simp
  have 7: "classify_question_type ''Explain how cellular respiration works'' = ''conceptual''" by code_simp
  from 1 2 3 4 5 6 7 show ?thesis by (intro conjI)
qed

section \<open>Properties of the interaction store\<close>

subsection \<open>The sliding window\<close>

lemma length_lastn: "length (lastn n xs) = min n (length xs)"
  by (simp add: lastn_def)

lemma lastn_all: "length xs \<le> n \<Longrightarrow> lastn n xs = xs"
  by (simp add: lastn_def)

lemma lastn_Nil: "lastn n [] = []"
  by (simp add: lastn_def)

lemma lastn_lastn_append: "lastn n (lastn n xs @ ys) = lastn n (xs @ ys)"
proof (cases "length xs \<le> n")
  case True
  then show ?thesis by (simp add: lastn_all)
next
  case False
  then have "lastn n (lastn n xs @ ys) = drop (length ys) (drop (length xs - n) xs @ ys)"
    by (simp add: lastn_def)
  also have "\<dots> = drop (length ys) (drop (length xs - n) (xs @ ys))" by simp
  also have "\<dots> = lastn n (xs @ ys)" using False by (simp add: lastn_def add.commute)
  finally show ?thesis .
qed

lemma lastn_lastn:
  assumes "k \<le> n"
  shows "lastn k (lastn n xs) = lastn k xs"
  unfolding lastn_def drop_drop length_drop
  by (rule arg_cong[where f = "\<lambda>j. drop j xs"]) (use assms in arith)

lemma lastn_eq_Nil: "0 < n \<Longrightarrow> lastn n xs = [] \<longleftrightarrow> xs = []"
  by (cases xs) (auto simp: lastn_def)

lemma last_lastn: "0 < n \<Longrightarrow> xs \<noteq> [] \<Longrightarrow> last (lastn n xs) = last xs"
  by (simp add: lastn_def last_drop)

lemma interactions_append_capped:
  "interactions (append_capped m i) = lastn max_interactions (interactions m @ [i])"
  by (simp add: append_capped_def Let_def lastn_all)

lemma learning_patterns_append_capped:
  "learning_patterns (append_capped m i) = learning_patterns m"
  by (simp add: append_capped_def Let_def)

lemma interactions_update_learning_patterns:
  "interactions (update_learning_patterns m i) = interactions m"
  by (simp add: update_learning_patterns_def update_learning_patterns_body_def Let_def
      split: option.splits)

lemma add_interaction_Inr:
  "add_interaction m now query response =
     Inr (case new_interaction now query response of
            Inl e \<Rightarrow> m
          | Inr i \<Rightarrow> update_learning_patterns (append_capped m i) i)"
  by (simp add: add_interaction_def add_interaction_body_def split: sum.splits)

lemma run_append: "run m (cs @ ds) = run (run m cs) ds"
  by (induction cs arbitrary: m) (auto simp: add_interaction_Inr)

lemma recorded_append: "recorded (cs @ ds) = recorded cs @ recorded ds"
  by (simp add: recorded_def)

lemma recorded_Nil: "recorded [] = []"
  by (simp add: recorded_def)

lemma run_snoc:
  "run m (cs @ [(now, query, response)]) =
     (case new_interaction now query response of
        Inl e \<Rightarrow> run m cs
      | Inr i \<Rightarrow> update_learning_patterns (append_capped (run m cs) i) i)"
  by (simp add: run_append add_interaction_Inr)

lemma recorded_snoc:
  "recorded (cs @ [(now, query, response)]) =
     (case new_interaction now query response of
        Inl e \<Rightarrow> recorded cs
      | Inr i \<Rightarrow> recorded cs @ [i])"
  by (simp add: recorded_append) (simp add: recorded_def split: sum.splits)

lemma interactions_run:
  "interactions (run init_memory calls) = lastn max_interactions (recorded calls)"
proof (induction calls rule: rev_induct)
  case Nil
  show ?case by (simp add: init_memory_def recorded_Nil lastn_Nil)
next
  case (snoc c cs)
  obtain now query response where c: "c = (now, query, response)" by (cases c)
  show ?case
  proof (cases "new_interaction now query response")
    case (Inl e)
    with snoc show ?thesis unfolding c run_snoc recorded_snoc by simp
  next
    case (Inr i)
    with snoc show ?thesis unfolding c run_snoc recorded_snoc
      by (simp add: interactions_update_learning_patterns interactions_append_capped
          lastn_lastn_append)
  qed
qed

lemma new_interaction_str:
  "new_interaction now (PyStr q) response =
     Inr \<lparr>timestamp = now, user_query = q, ai_response = response,
          topics = extract_topics q, difficulty = estimate_difficulty q,
          subject = identify_subject q\<rparr>"
  by (simp add: new_interaction_def)

lemma recorded_all_str:
  "(\<forall>c\<in>set calls. \<exists>q. fst (snd c) = PyStr q) \<Longrightarrow>
   map (\<lambda>i. (timestamp i, PyStr (user_query i), ai_response i)) (recorded calls) = calls"
proof (induction calls)
  case Nil
  show ?case by (simp add: recorded_Nil)
next
  case (Cons c cs)
  obtain now query response where c: "c = (now, query, response)" by (cases c)
  from Cons.prems obtain q where q: "query = PyStr q" unfolding c by auto
  have "recorded (c # cs) = recorded [c] @ recorded cs"
    using recorded_append[of "[c]" cs] by simp
  moreover have "recorded [c] = [\<lparr>timestamp = now, user_query = q, ai_response = response,
          topics = extract_topics q, difficulty = estimate_difficulty q,
          subject = identify_subject q\<rparr>]"
    unfolding c q by (simp add: recorded_def new_interaction_str)
  ultimately show ?case using Cons c q by simp
qed

text \<open>
  Claim C1. The interaction log is a sliding window of the last 50 recorded interactions:
  after any sequence of calls on a fresh store it holds at most 50 of them, namely the last
  50 recorded, in the order of the calls. After 55 additions it holds exactly 50, the sixth
  to the fifty-fifth.
\<close>

theorem interactions_sliding_window:
  "length (interactions (run init_memory calls)) \<le> 50 \<and>
   interactions (run init_memory calls) = lastn 50 (recorded calls) \<and>
   (length (recorded calls) = 55 \<longrightarrow>
      length (interactions (run init_memory calls)) = 50 \<and>
      interactions (run init_memory calls) = drop 5 (recorded calls)) \<and>
   ((\<forall>c\<in>set calls. \<exists>q. fst (snd c) = PyStr q) \<and> length calls = 55 \<longrightarrow>
      map (\<lambda>i. (timestamp i, PyStr (user_query i), ai_response i))
        (interactions (run init_memory calls)) = drop 5 calls)"
proof -
  have a: "interactions (run init_memory calls) = lastn 50 (recorded calls)"
    using interactions_run[of calls] by (simp add: max_interactions_def)
  have b: "length (interactions (run init_memory calls)) \<le> 50"
    unfolding a by (simp add: length_lastn)
  have c: "length (interactions (run init_memory calls)) = 50 \<and>
      interactions (run init_memory calls) = drop 5 (recorded calls)"
    if "length (recorded calls) = 55"
    unfolding a using that by (simp add: lastn_def)
  have d: "map (\<lambda>i. (timestamp i, PyStr (user_query i), ai_response i))
        (interactions (run init_memory calls)) = drop 5 calls"
    if h: "(\<forall>c\<in>set calls. \<exists>q. fst (snd c) = PyStr q) \<and> length calls = 55"
  proof -
    from h have r: "map (\<lambda>i. (timestamp i, PyStr (user_query i), ai_response i)) (recorded calls) = calls"
      using recorded_all_str[of calls] by simp
    then have "length (recorded calls) = length calls" using length_map by metis
    with h c have "interactions (run init_memory calls) = drop 5 (recorded calls)" by simp
    then show ?thesis using r by (simp add: drop_map[symmetric])
  qed
  from a b c d show ?thesis by simp
qed

theorem interactions_sliding_window_witness:
  "length (interactions (run init_memory (map (\<lambda>n. (int n, PyStr ''why'', PyNone)) [0..<55]))) = 50 \<and>
   map timestamp (interactions (run init_memory (map (\<lambda>n. (int n, PyStr ''why'', PyNone)) [0..<55])))
     = map int [5..<55]"
proof -
  let ?calls = "map (\<lambda>n. (int n, PyStr ''why'', PyNone)) [0..<55]"
  have h: "(\<forall>c\<in>set ?calls. \<exists>q. fst (snd c) = PyStr q) \<and> length ?calls = 55" by simp
  then have "\<forall>c\<in>set ?calls. \<exists>q. fst (snd c) = PyStr q" by (rule conjunct1)
  then have "map (\<lambda>i. (timestamp i, PyStr (user_query i), ai_response i)) (recorded ?calls) = ?calls"
    by (rule recorded_all_str)
  then have "length (map (\<lambda>i. (timestamp i, PyStr (user_query i), ai_response i)) (recorded ?calls))
      = length ?calls" by (simp only:)
  then have n: "length (recorded ?calls) = 55" by simp
  note interactions_sliding_window[of ?calls, THEN conjunct2, THEN conjunct2, THEN conjunct1]
  from this n have l: "length (interactions (run init_memory ?calls)) = 50 \<and>
      interactions (run init_memory ?calls) = drop 5 (recorded ?calls)" by (rule mp)
  note interactions_sliding_window[of ?calls, THEN conjunct2, THEN conjunct2, THEN conjunct2]
  from this h
  have e: "map (\<lambda>i. (timestamp i, PyStr (user_query i), ai_response i))
        (interactions (run init_memory ?calls)) = drop 5 ?calls" by (rule mp)
  then have "map fst (map (\<lambda>i. (timestamp i, PyStr (user_query i), ai_response i))
        (interactions (run init_memory ?calls))) = map fst (drop 5 ?calls)" by (simp only:)
  then have t: "map timestamp (interactions (run init_memory ?calls)) = map int [5..<55]"
    by (simp add: drop_map comp_def)
  from conjunct1[OF l] t show ?thesis by (rule conjI)
qed


lemma estimate_difficulty_valid: "difficulty_values (estimate_difficulty q) \<noteq> None"
  by (simp add: estimate_difficulty_def difficulty_values_def Let_def)

lemma those_map_Some:
  "(\<forall>x\<in>set xs. f x \<noteq> None) \<Longrightarrow> those (map f xs) = Some (map (the \<circ> f) xs)"
  by (induction xs) auto

lemma set_lastn: "set (lastn n xs) \<subseteq> set xs"
  by (simp add: lastn_def set_drop_subset)

lemma hd_lastn_Some:
  assumes "3 \<le> length xs" "\<forall>d\<in>set xs. difficulty_values d \<noteq> None"
  shows "\<exists>a. difficulty_values (hd (lastn 3 xs)) = Some a"
proof -
  have "lastn 3 xs \<noteq> []" using assms(1) by (simp add: lastn_def)
  then have "hd (lastn 3 xs) \<in> set xs" using set_lastn[of 3 xs] by auto
  with assms(2) show ?thesis by auto
qed

lemma last_Some:
  assumes "3 \<le> length xs" "\<forall>d\<in>set xs. difficulty_values d \<noteq> None"
  shows "\<exists>b. difficulty_values (last xs) = Some b"
proof -
  have "xs \<noteq> []" using assms(1) by auto
  then have "last xs \<in> set xs" by simp
  with assms(2) show ?thesis by auto
qed

lemma difficulty_rank_values: "difficulty_rank d = difficulty_values d"
  by (simp add: difficulty_rank_def difficulty_values_def)

lemma trend_spec_alt:
  "trend_spec samples =
     (if length samples < 3 then None
      else
        case (difficulty_values (hd (lastn 3 samples)), difficulty_values (last samples)) of
          (Some a, Some b) \<Rightarrow>
            Some (if a < b then ''increasing'' else if b < a then ''decreasing'' else ''stable'')
        | _ \<Rightarrow> None)"
proof (cases "length samples < 3")
  case True
  then show ?thesis by (simp add: trend_spec_def)
next
  case False
  then have "hd (lastn 3 samples) = samples ! (length samples - 3)"
    by (simp add: lastn_def hd_drop_conv_nth)
  moreover have "last samples = samples ! (length samples - 1)"
    using False by (intro last_conv_nth) auto
  ultimately show ?thesis using False
    by (simp add: trend_spec_def difficulty_rank_values)
qed

lemma trend_spec_lastn:
  assumes "3 \<le> n"
  shows "trend_spec (lastn n xs) = trend_spec xs"
proof (cases "length xs < 3")
  case True
  then have "length (lastn n xs) < 3" by (simp add: length_lastn)
  with True show ?thesis by (simp add: trend_spec_alt)
next
  case False
  then have ne: "xs \<noteq> []" by auto
  have "last (lastn n xs) = last xs" using assms ne by (simp add: last_lastn)
  moreover have "lastn 3 (lastn n xs) = lastn 3 xs" using assms by (rule lastn_lastn)
  moreover have "\<not> length (lastn n xs) < 3" using False assms by (simp add: length_lastn)
  ultimately show ?thesis using False by (simp add: trend_spec_alt)
qed

lemma update_body_valid:
  assumes v: "\<forall>d\<in>set (history_labels m). difficulty_values d \<noteq> None"
    and vi: "difficulty_values (difficulty i) \<noteq> None"
  shows "fst (update_learning_patterns_body m i) = None"
    and "history_labels (update_learning_patterns m i) = lastn 10 (history_labels m @ [difficulty i])"
    and "difficulty_history (learning_patterns (update_learning_patterns m i)) \<noteq> None"
    and "difficulty_trend (learning_patterns (update_learning_patterns m i)) =
           (if 3 \<le> length (lastn 10 (history_labels m @ [difficulty i]))
            then trend_spec (lastn 10 (history_labels m @ [difficulty i]))
            else difficulty_trend (learning_patterns m))"
proof -
  let ?new = "lastn 10 (history_labels m @ [difficulty i])"
  have vn: "\<forall>d\<in>set ?new. difficulty_values d \<noteq> None"
    using v vi set_lastn[of 10 "history_labels m @ [difficulty i]"] by auto
  then have v3: "\<forall>d\<in>set (lastn 3 ?new). difficulty_values d \<noteq> None"
    using set_lastn[of 3 ?new] by auto
  have th: "those (map difficulty_values (lastn 3 ?new)) = Some (map (the \<circ> difficulty_values) (lastn 3 ?new))"
    using v3 by (rule those_map_Some)
  have hist: "(case difficulty_history (learning_patterns m) of None \<Rightarrow> [] | Some l \<Rightarrow> l) = history_labels m"
    by (simp add: history_labels_def)
  show "fst (update_learning_patterns_body m i) = None"
    by (simp add: update_learning_patterns_body_def Let_def hist th)
  show "history_labels (update_learning_patterns m i) = ?new"
    by (simp add: update_learning_patterns_def update_learning_patterns_body_def Let_def hist th
        history_labels_def[of "_\<lparr>learning_patterns := _\<rparr>"])
  show "difficulty_history (learning_patterns (update_learning_patterns m i)) \<noteq> None"
    by (simp add: update_learning_patterns_def update_learning_patterns_body_def Let_def hist th)
  show "difficulty_trend (learning_patterns (update_learning_patterns m i)) =
           (if 3 \<le> length ?new then trend_spec ?new else difficulty_trend (learning_patterns m))"
  proof (cases "3 \<le> length ?new")
    case False
    then show ?thesis
      by (simp add: update_learning_patterns_def update_learning_patterns_body_def Let_def hist)
  next
    case True
    then have ne: "lastn 3 ?new \<noteq> []" "?new \<noteq> []" by (auto simp: lastn_def[of 3])
    from hd_lastn_Some[OF True vn] obtain a where a: "difficulty_values (hd (lastn 3 ?new)) = Some a" ..
    from last_Some[OF True vn] obtain b where b: "difficulty_values (last ?new) = Some b" ..
    have l3: "last (lastn 3 ?new) = last ?new" using ne(2) by (simp add: last_lastn)
    have "hd (map (the \<circ> difficulty_values) (lastn 3 ?new)) = a"
      using ne(1) a by (simp add: hd_map)
    moreover have "last (map (the \<circ> difficulty_values) (lastn 3 ?new)) = b"
      using ne(1) b l3 by (simp add: last_map)
    moreover have "trend_spec ?new =
        Some (if a < b then ''increasing'' else if b < a then ''decreasing'' else ''stable'')"
      using True a b by (simp add: trend_spec_alt)
    ultimately show ?thesis using True
      by (simp add: update_learning_patterns_def update_learning_patterns_body_def Let_def hist th)
  qed
qed


lemma history_labels_append_capped: "history_labels (append_capped m i) = history_labels m"
  by (simp add: history_labels_def learning_patterns_append_capped)

lemma difficulty_new_interaction:
  "new_interaction now query response = Inr i \<Longrightarrow> difficulty_values (difficulty i) \<noteq> None"
  by (cases query) (use estimate_difficulty_valid in \<open>auto simp: new_interaction_def\<close>)

lemma run_patterns:
  "history_labels (run init_memory calls) = lastn 10 (map difficulty (recorded calls)) \<and>
   (\<forall>d\<in>set (map difficulty (recorded calls)). difficulty_values d \<noteq> None) \<and>
   difficulty_trend (learning_patterns (run init_memory calls)) =
     trend_spec (map difficulty (recorded calls))"
proof (induction calls rule: rev_induct)
  case Nil
  show ?case
    by (simp add: init_memory_def empty_patterns_def recorded_Nil lastn_Nil history_labels_def
        trend_spec_alt)
next
  case (snoc c cs)
  obtain now query response where c: "c = (now, query, response)" by (cases c)
  let ?m = "run init_memory cs"
  let ?ds = "map difficulty (recorded cs)"
  from snoc have h: "history_labels ?m = lastn 10 ?ds"
    and v: "\<forall>d\<in>set ?ds. difficulty_values d \<noteq> None"
    and t: "difficulty_trend (learning_patterns ?m) = trend_spec ?ds" by simp_all
  show ?case
  proof (cases "new_interaction now query response")
    case (Inl e)
    with snoc show ?thesis unfolding c run_snoc recorded_snoc by simp
  next
    case (Inr i)
    have vi: "difficulty_values (difficulty i) \<noteq> None" using Inr by (rule difficulty_new_interaction)
    have vm: "\<forall>d\<in>set (history_labels (append_capped ?m i)). difficulty_values d \<noteq> None"
      unfolding history_labels_append_capped h using v set_lastn[of 10 ?ds] by auto
    have new: "lastn 10 (history_labels (append_capped ?m i) @ [difficulty i]) = lastn 10 (?ds @ [difficulty i])"
      unfolding history_labels_append_capped h by (rule lastn_lastn_append)
    have len: "3 \<le> length (lastn 10 (?ds @ [difficulty i])) \<longleftrightarrow> 3 \<le> length (?ds @ [difficulty i])"
      by (simp add: length_lastn)
    have 1: "history_labels (update_learning_patterns (append_capped ?m i) i) = lastn 10 (?ds @ [difficulty i])"
      using update_body_valid(2)[OF vm vi] new by simp
    have 2: "\<forall>d\<in>set (?ds @ [difficulty i]). difficulty_values d \<noteq> None" using v vi by simp
    have 3: "difficulty_trend (learning_patterns (update_learning_patterns (append_capped ?m i) i)) =
        trend_spec (?ds @ [difficulty i])"
    proof (cases "3 \<le> length (?ds @ [difficulty i])")
      case True
      with len have "3 \<le> length (lastn 10 (?ds @ [difficulty i]))" by simp
      then have "difficulty_trend (learning_patterns (update_learning_patterns (append_capped ?m i) i)) =
          trend_spec (lastn 10 (?ds @ [difficulty i]))"
        using update_body_valid(4)[OF vm vi] new by simp
      then show ?thesis by (simp add: trend_spec_lastn)
    next
      case False
      with len have "\<not> 3 \<le> length (lastn 10 (?ds @ [difficulty i]))" by simp
      then have "difficulty_trend (learning_patterns (update_learning_patterns (append_capped ?m i) i)) =
          difficulty_trend (learning_patterns (append_capped ?m i))"
        using update_body_valid(4)[OF vm vi] new by simp
      also have "\<dots> = trend_spec ?ds" using t by (simp add: learning_patterns_append_capped)
      also have "\<dots> = None" using False by (simp add: trend_spec_alt)
      also have "\<dots> = trend_spec (?ds @ [difficulty i])" using False by (simp add: trend_spec_alt)
      finally show ?thesis .
    qed
    from 1 2 3 Inr show ?thesis unfolding c run_snoc recorded_snoc by simp
  qed
qed

lemma trend_spec_defined:
  assumes "\<forall>d\<in>set ds. difficulty_values d \<noteq> None"
  shows "trend_spec ds \<noteq> None \<longleftrightarrow> 3 \<le> length ds"
proof (cases "3 \<le> length ds")
  case True
  from hd_lastn_Some[OF True assms] obtain a where a: "difficulty_values (hd (lastn 3 ds)) = Some a" ..
  from last_Some[OF True assms] obtain b where b: "difficulty_values (last ds) = Some b" ..
  from True a b show ?thesis by (simp add: trend_spec_alt)
next
  case False
  then show ?thesis by (simp add: trend_spec_alt)
qed

lemma recorded_three:
  "map difficulty (recorded [(t1, PyStr q1, r1), (t2, PyStr q2, r2), (t3, PyStr q3, r3)]) =
     [estimate_difficulty q1, estimate_difficulty q2, estimate_difficulty q3]"
  by (simp add: recorded_def new_interaction_str)

lemma recorded_four:
  "map difficulty (recorded [(t1, PyStr q1, r1), (t2, PyStr q2, r2), (t3, PyStr q3, r3),
      (t4, PyStr q4, r4)]) =
     [estimate_difficulty q1, estimate_difficulty q2, estimate_difficulty q3, estimate_difficulty q4]"
  by (simp add: recorded_def new_interaction_str)

lemma trend_spec_three:
  "trend_spec [''beginner'', ''intermediate'', ''advanced''] = Some ''increasing''"
  "trend_spec [''advanced'', ''intermediate'', ''beginner''] = Some ''decreasing''"
  "trend_spec [''intermediate'', ''advanced'', ''intermediate''] = Some ''stable''"
  by (simp_all add: trend_spec_def difficulty_rank_def)

lemma trend_spec_four:
  "trend_spec [''advanced'', ''beginner'', ''beginner'', ''beginner''] = Some ''stable''"
  by (simp add: trend_spec_def difficulty_rank_def)

lemma recorded_Cons_str:
  "recorded ((now, PyStr q, r) # calls) =
     \<lparr>timestamp = now, user_query = q, ai_response = r,
      topics = extract_topics q, difficulty = estimate_difficulty q,
      subject = identify_subject q\<rparr> # recorded calls"
  by (simp add: recorded_def new_interaction_str)

lemma recorded_strs:
  "map difficulty (recorded (map (\<lambda>(now, q, r). (now, PyStr q, r)) qs)) =
     map (\<lambda>(now, q, r). estimate_difficulty q) qs"
proof (induction qs)
  case Nil
  show ?case by (simp add: recorded_Nil)
next
  case (Cons c cs)
  obtain now q r where c: "c = (now, q, r)" by (cases c)
  show ?case unfolding c using Cons by (simp add: recorded_Cons_str)
qed

text \<open>
  Claim C6. After any sequence of calls on a fresh store, \<open>difficulty_trend\<close> is defined
  exactly when three or more difficulty samples were recorded, and it compares the first
  with the last of the three most recent samples (beginner = 1, intermediate = 2,
  advanced = 3), whatever came before them. Three additions labelled beginner,
  intermediate, advanced give \<open>increasing\<close>; advanced, intermediate, beginner give
  \<open>decreasing\<close>; intermediate, advanced, intermediate give \<open>stable\<close>; and four additions
  labelled advanced, beginner, beginner, beginner give \<open>stable\<close>, the first sample being
  out of the window.
\<close>

theorem difficulty_trend_rule:
  "difficulty_trend (learning_patterns (run init_memory calls)) =
     trend_spec (map difficulty (recorded calls)) \<and>
   (difficulty_trend (learning_patterns (run init_memory calls)) \<noteq> None \<longleftrightarrow>
      3 \<le> length (recorded calls)) \<and>
   difficulty_trend (learning_patterns
       (run init_memory (map (\<lambda>(now, q, r). (now, PyStr q, r)) qs))) =
     trend_spec (map (\<lambda>(now, q, r). estimate_difficulty q) qs) \<and>
   (estimate_difficulty q1 = ''beginner'' \<and> estimate_difficulty q2 = ''intermediate'' \<and>
    estimate_difficulty q3 = ''advanced'' \<longrightarrow>
      difficulty_trend (learning_patterns
        (run init_memory [(t1, PyStr q1, r1), (t2, PyStr q2, r2), (t3, PyStr q3, r3)]))
      = Some ''increasing'') \<and>
   (estimate_difficulty q1 = ''advanced'' \<and> estimate_difficulty q2 = ''intermediate'' \<and>
    estimate_difficulty q3 = ''beginner'' \<longrightarrow>
      difficulty_trend (learning_patterns
        (run init_memory [(t1, PyStr q1, r1), (t2, PyStr q2, r2), (t3, PyStr q3, r3)]))
      = Some ''decreasing'') \<and>
   (estimate_difficulty q1 = ''intermediate'' \<and> estimate_difficulty q2 = ''advanced'' \<and>
    estimate_difficulty q3 = ''intermediate'' \<longrightarrow>
      difficulty_trend (learning_patterns
        (run init_memory [(t1, PyStr q1, r1), (t2, PyStr q2, r2), (t3, PyStr q3, r3)]))
      = Some ''stable'') \<and>
   (estimate_difficulty q1 = ''advanced'' \<and> estimate_difficulty q2 = ''beginner'' \<and>
    estimate_difficulty q3 = ''beginner'' \<and> estimate_difficulty q4 = ''beginner'' \<longrightarrow>
      difficulty_trend (learning_patterns
        (run init_memory
          [(t1, PyStr q1, r1), (t2, PyStr q2, r2), (t3, PyStr q3, r3), (t4, PyStr q4, r4)]))
      = Some ''stable'')"
proof -
  let ?three = "[(t1, PyStr q1, r1), (t2, PyStr q2, r2), (t3, PyStr q3, r3)]"
  let ?four = "[(t1, PyStr q1, r1), (t2, PyStr q2, r2), (t3, PyStr q3, r3), (t4, PyStr q4, r4)]"
  have a: "difficulty_trend (learning_patterns (run init_memory calls)) =
     trend_spec (map difficulty (recorded calls))"
    using run_patterns[of calls] by simp
  have b: "difficulty_trend (learning_patterns (run init_memory calls)) \<noteq> None \<longleftrightarrow>
      3 \<le> length (recorded calls)"
    unfolding a using trend_spec_defined[of "map difficulty (recorded calls)"] run_patterns[of calls]
    by simp
  have s: "difficulty_trend (learning_patterns
       (run init_memory (map (\<lambda>(now, q, r). (now, PyStr q, r)) qs))) =
     trend_spec (map (\<lambda>(now, q, r). estimate_difficulty q) qs)"
    using run_patterns[of "map (\<lambda>(now, q, r). (now, PyStr q, r)) qs"] unfolding recorded_strs
    by simp
  have t: "difficulty_trend (learning_patterns (run init_memory ?three)) =
      trend_spec [estimate_difficulty q1, estimate_difficulty q2, estimate_difficulty q3]"
    using run_patterns[of ?three] unfolding recorded_three by simp
  have f: "difficulty_trend (learning_patterns (run init_memory ?four)) =
      trend_spec [estimate_difficulty q1, estimate_difficulty q2, estimate_difficulty q3,
        estimate_difficulty q4]"
    using run_patterns[of ?four] unfolding recorded_four by simp
  have c: "difficulty_trend (learning_patterns (run init_memory ?three)) = Some ''increasing''"
    if "estimate_difficulty q1 = ''beginner'' \<and> estimate_difficulty q2 = ''intermediate'' \<and>
        estimate_difficulty q3 = ''advanced''"
    unfolding t using that by (simp add: trend_spec_three)
  have d: "difficulty_trend (learning_patterns (run init_memory ?three)) = Some ''decreasing''"
    if "estimate_difficulty q1 = ''advanced'' \<and> estimate_difficulty q2 = ''intermediate'' \<and>
        estimate_difficulty q3 = ''beginner''"
    unfolding t using that by (simp add: trend_spec_three)
  have e: "difficulty_trend (learning_patterns (run init_memory ?three)) = Some ''stable''"
    if "estimate_difficulty q1 = ''intermediate'' \<and> estimate_difficulty q2 = ''advanced'' \<and>
        estimate_difficulty q3 = ''intermediate''"
    unfolding t using that by (simp add: trend_spec_three)
  have g: "difficulty_trend (learning_patterns (run init_memory ?four)) = Some ''stable''"
    if "estimate_difficulty q1 = ''advanced'' \<and> estimate_difficulty q2 = ''beginner'' \<and>
        estimate_difficulty q3 = ''beginner'' \<and> estimate_difficulty q4 = ''beginner''"
    unfolding f using that by (simp add: trend_spec_four)
  from a b s c d e g show ?thesis by (intro conjI impI)
qed

theorem difficulty_trend_rule_witness:
  "difficulty_trend (learning_patterns (run init_memory
      [(0, PyStr ''what is a cell'', PyNone), (1, PyStr ''cells'', PyNone), (2, PyStr ''quantum cells'', PyNone)]))
     = Some ''increasing'' \<and>
   difficulty_trend (learning_patterns (run init_memory
      [(0, PyStr ''quantum cells'', PyNone), (1, PyStr ''cells'', PyNone), (2, PyStr ''what is a cell'', PyNone)]))
     = Some ''decreasing'' \<and>
   difficulty_trend (learning_patterns (run init_memory
      [(0, PyStr ''cells'', PyNone), (1, PyStr ''quantum cells'', PyNone), (2, PyStr ''cells'', PyNone)]))
     = Some ''stable'' \<and>
   difficulty_trend (learning_patterns (run init_memory
      [(0, PyStr ''quantum cells'', PyNone), (1, PyStr ''what is a cell'', PyNone),
       (2, PyStr ''what is a cell'', PyNone), (3, PyStr ''what is a cell'', PyNone)]))
     = Some ''stable'' \<and>
   difficulty_trend (learning_patterns (run init_memory
      (map (\<lambda>(now, q, r). (now, PyStr q, r))
        (replicate 9 (0, ''quantum cells'', PyNone) @
         [(1, ''what is a cell'', PyNone), (2, ''cells'', PyNone), (3, ''quantum cells'', PyNone)]))))
     = Some ''increasing''"
proof -
  have b: "estimate_difficulty ''what is a cell'' = ''beginner''" by code_simp
  have i: "estimate_difficulty ''cells'' = ''intermediate''" by code_simp
  have a: "estimate_difficulty ''quantum cells'' = ''advanced''" by code_simp
  note r1 = difficulty_trend_rule[of "[]" "[]" "''what is a cell''" "''cells''" "''quantum cells''"
      0 PyNone 1 PyNone 2 PyNone,
      THEN conjunct2, THEN conjunct2, THEN conjunct2, THEN conjunct1]
  note r2 = difficulty_trend_rule[of "[]" "[]" "''quantum cells''" "''cells''" "''what is a cell''"
      0 PyNone 1 PyNone 2 PyNone,
      THEN conjunct2, THEN conjunct2, THEN conjunct2, THEN conjunct2, THEN conjunct1]
  note r3 = difficulty_trend_rule[of "[]" "[]" "''cells''" "''quantum cells''" "''cells''"
      0 PyNone 1 PyNone 2 PyNone,
      THEN conjunct2, THEN conjunct2, THEN conjunct2, THEN conjunct2, THEN conjunct2, THEN conjunct1]
  note r4 = difficulty_trend_rule[of "[]" "[]" "''quantum cells''" "''what is a cell''"
      "''what is a cell''" 0 PyNone 1 PyNone 2 PyNone "''what is a cell''" 3 PyNone,
      THEN conjunct2, THEN conjunct2, THEN conjunct2, THEN conjunct2, THEN conjunct2, THEN conjunct2]
  note r5 = difficulty_trend_rule[of "[]"
      "replicate 9 (0, ''quantum cells'', PyNone) @
         [(1, ''what is a cell'', PyNone), (2, ''cells'', PyNone), (3, ''quantum cells'', PyNone)]",
      THEN conjunct2, THEN conjunct2, THEN conjunct1]
  have 1: "difficulty_trend (learning_patterns (run init_memory
      [(0, PyStr ''what is a cell'', PyNone), (1, PyStr ''cells'', PyNone), (2, PyStr ''quantum cells'', PyNone)]))
     = Some ''increasing''" using r1 b i a by simp
  have 2: "difficulty_trend (learning_patterns (run init_memory
      [(0, PyStr ''quantum cells'', PyNone), (1, PyStr ''cells'', PyNone), (2, PyStr ''what is a cell'', PyNone)]))
     = Some ''decreasing''" using r2 b i a by simp
  have 3: "difficulty_trend (learning_patterns (run init_memory
      [(0, PyStr ''cells'', PyNone), (1, PyStr ''quantum cells'', PyNone), (2, PyStr ''cells'', PyNone)]))
     = Some ''stable''" using r3 i a by simp
  have 4: "difficulty_trend (learning_patterns (run init_memory
      [(0, PyStr ''quantum cells'', PyNone), (1, PyStr ''what is a cell'', PyNone),
       (2, PyStr ''what is a cell'', PyNone), (3, PyStr ''what is a cell'', PyNone)]))
     = Some ''stable''" using r4 b a by simp
  have "trend_spec (map (\<lambda>(now, q, r). estimate_difficulty q)
        (replicate 9 (0::int, ''quantum cells'', PyNone) @
         [(1, ''what is a cell'', PyNone), (2, ''cells'', PyNone), (3, ''quantum cells'', PyNone)]))
     = Some ''increasing''"
    by (simp add: trend_spec_def difficulty_rank_def b i a nth_append)
  with r5 have 5: "difficulty_trend (learning_patterns (run init_memory
      (map (\<lambda>(now, q, r). (now, PyStr q, r))
        (replicate 9 (0, ''quantum cells'', PyNone) @
         [(1, ''what is a cell'', PyNone), (2, ''cells'', PyNone), (3, ''quantum cells'', PyNone)]))))
     = Some ''increasing''" by (simp only:)
  from 1 2 3 4 5 show ?thesis by (intro conjI)
qed

subsection \<open>Failures inside \<open>add_interaction\<close>\<close>


lemma reachable_length: "reachable m \<Longrightarrow> length (interactions m) \<le> max_interactions"
proof (induction rule: reachable.induct)
  case fresh
  show ?case by (simp add: init_memory_def)
next
  case (added m now query response m')
  then show ?case
    by (cases "new_interaction now query response")
      (auto simp: add_interaction_Inr interactions_update_learning_patterns
        interactions_append_capped length_lastn)
next
  case (cleared m)
  show ?case by (simp add: clear_memory_def)
qed





subsection \<open>Clearing\<close>

text \<open>
  Claim C8. After \<open>clear_memory\<close>, on any memory, the store is the fresh store and every
  read accessor gives its fresh-store output: \<open>get_learning_context\<close> the sentence
  \<open>No previous learning interactions in this session.\<close>, \<open>get_interaction_summary\<close>
  the sentence \<open>No learning interactions recorded yet.\<close>, and \<open>get_subject_statistics\<close>
  the empty mapping.
\<close>

theorem clear_memory_round_trip:
  "clear_memory m = init_memory \<and>
   get_learning_context set_order (clear_memory m) = ''No previous learning interactions in this session.'' \<and>
   get_interaction_summary (clear_memory m) = ''No learning interactions recorded yet.'' \<and>
   get_subject_statistics (clear_memory m) = [] \<and>
   get_learning_context set_order (clear_memory m) = get_learning_context set_order init_memory \<and>
   get_interaction_summary (clear_memory m) = get_interaction_summary init_memory \<and>
   get_subject_statistics (clear_memory m) = get_subject_statistics init_memory"
proof -
  have a: "clear_memory m = init_memory" by (simp add: clear_memory_def init_memory_def)
  have b: "get_learning_context set_order init_memory = ''No previous learning interactions in this session.''"
    by (simp add: get_learning_context_def init_memory_def lastn_def)
  have c: "get_interaction_summary init_memory = ''No learning interactions recorded yet.''"
    by (simp add: get_interaction_summary_def init_memory_def)
  have d: "get_subject_statistics init_memory = []"
    by (simp add: get_subject_statistics_def init_memory_def count_subjects_def)
  from a b c d show ?thesis by simp
qed

section \<open>Properties of the tool router\<close>

lemma length_tools: "length tools = 18"
  by (simp add: tools_def)

lemma distinct_tools: "distinct (map fst tools)"
  by (simp add: tools_def)

lemma map_of_tools_empty: "map_of tools [] = None"
  by (simp add: tools_def)

lemma analyze_and_respond_total:
  "\<exists>r. analyze_and_respond env query profile context = Inr r"
  by (simp add: analyze_and_respond_def split: sum.splits)

lemma analyze_and_respond_failed:
  "classify_tool env query profile = Inl e \<Longrightarrow>
   analyze_and_respond env query profile context = Inr None"
  by (simp add: analyze_and_respond_def analyze_and_respond_body_def)

lemma analyze_and_respond_miss:
  assumes "classify_tool env query profile = Inr v"
    and "\<forall>s. v = JStr s \<longrightarrow> map_of tools s = None"
  shows "analyze_and_respond env query profile context = Inr None"
  using assms
  by (cases v) (simp_all add: analyze_and_respond_def analyze_and_respond_body_def)

lemma analyze_and_respond_hit:
  assumes "classify_tool env query profile = Inr (JStr s)"
    and "map_of tools s = Some t"
  shows "analyze_and_respond env query profile context =
      (case run_tool env t query profile context of
         Inl e \<Rightarrow> Inr None
       | Inr text \<Rightarrow> Inr (Some text))"
proof -
  have "s \<noteq> []" using assms(2) map_of_tools_empty by auto
  with assms show ?thesis
    by (simp add: analyze_and_respond_def analyze_and_respond_body_def split: sum.splits)
qed

text \<open>
  A registry hit does not always give a text: the classifier names \<open>math_solver\<close>, which
  is a key of the registry, the request of the strategy fails, and the router returns
  \<open>None\<close>.
\<close>

theorem strategy_failure_counterexample:
  "analyze_and_respond failing_strategy_env ''solve 2x = 4'' () [] = Inr None \<and>
   classify_tool failing_strategy_env ''solve 2x = 4'' () = Inr (JStr ''math_solver'') \<and>
   map_of tools ''math_solver'' = Some solve_math_problem"
proof -
  have c: "classify_tool failing_strategy_env ''solve 2x = 4'' () = Inr (JStr ''math_solver'')"
    by (simp add: classify_tool_def failing_strategy_env_def math_reply_def)
  have t: "map_of tools ''math_solver'' = Some solve_math_problem"
    by (simp add: tools_def)
  have r: "run_tool failing_strategy_env solve_math_problem ''solve 2x = 4'' () [] = Inl APIError"
    by (simp add: run_tool_def failing_strategy_env_def)
  have "analyze_and_respond failing_strategy_env ''solve 2x = 4'' () [] = Inr None"
    unfolding analyze_and_respond_hit[OF c t] r by simp
  with c t show ?thesis by (intro conjI)
qed

text \<open>
  Claim C3, as amended. For every query, profile and context, \<open>analyze_and_respond\<close>
  raises no exception. It returns \<open>None\<close> in exactly these cases: the classification
  exchange fails, the field \<open>tool\<close> is null, the field is not a key of the registry of 18
  entries, or it is a key and the strategy it names fails. On a registry hit whose strategy
  returns a text, that text is returned unchanged.
\<close>

theorem analyze_and_respond_cases:
  "(\<exists>r. analyze_and_respond env query profile context = Inr r) \<and>
   (analyze_and_respond env query profile context = Inr None \<longleftrightarrow>
      (\<exists>e. classify_tool env query profile = Inl e) \<or>
      classify_tool env query profile = Inr JNull \<or>
      (\<exists>v. classify_tool env query profile = Inr v \<and>
           (\<forall>s. v = JStr s \<longrightarrow> map_of tools s = None)) \<or>
      (\<exists>s t e. classify_tool env query profile = Inr (JStr s) \<and> map_of tools s = Some t \<and>
           run_tool env t query profile context = Inl e)) \<and>
   (\<forall>s t text. classify_tool env query profile = Inr (JStr s) \<and> map_of tools s = Some t \<and>
        run_tool env t query profile context = Inr text \<longrightarrow>
        analyze_and_respond env query profile context = Inr (Some text)) \<and>
   length tools = 18 \<and> distinct (map fst tools)"
proof -
  have hit: "analyze_and_respond env query profile context = Inr (Some out)"
    if "classify_tool env query profile = Inr (JStr s) \<and> map_of tools s = Some t \<and>
        run_tool env t query profile context = Inr out" for s t out
    using that analyze_and_respond_hit[of env query profile s t "context"] by simp
  have iff: "analyze_and_respond env query profile context = Inr None \<longleftrightarrow>
      (\<exists>e. classify_tool env query profile = Inl e) \<or>
      classify_tool env query profile = Inr JNull \<or>
      (\<exists>v. classify_tool env query profile = Inr v \<and>
           (\<forall>s. v = JStr s \<longrightarrow> map_of tools s = None)) \<or>
      (\<exists>s t e. classify_tool env query profile = Inr (JStr s) \<and> map_of tools s = Some t \<and>
           run_tool env t query profile context = Inl e)"
  proof (cases "classify_tool env query profile")
    case (Inl e)
    then show ?thesis using analyze_and_respond_failed[of env query profile e "context"] by simp
  next
    case (Inr v)
    show ?thesis
    proof (cases "\<forall>s. v = JStr s \<longrightarrow> map_of tools s = None")
      case True
      then show ?thesis using Inr analyze_and_respond_miss[of env query profile v "context"] by simp
    next
      case False
      then obtain s t where v: "v = JStr s" and t: "map_of tools s = Some t" by auto
      show ?thesis
        using Inr v t analyze_and_respond_hit[of env query profile s t "context"]
        by (cases "run_tool env t query profile context") simp_all
    qed
  qed
  from analyze_and_respond_total[of env query profile "context"] iff hit length_tools distinct_tools
  show ?thesis by (intro conjI allI impI)
qed

theorem analyze_and_respond_cases_witness:
  "analyze_and_respond working_strategy_env ''solve 2x = 4'' () [] =
     Inr (Some ''Math Problem Solver: x = 2'')"
proof -
  have c: "classify_tool working_strategy_env ''solve 2x = 4'' () = Inr (JStr ''math_solver'')"
    by (simp add: classify_tool_def working_strategy_env_def math_reply_def)
  have t: "map_of tools ''math_solver'' = Some solve_math_problem"
    by (simp add: tools_def)
  have r: "run_tool working_strategy_env solve_math_problem ''solve 2x = 4'' () [] =
      Inr ''Math Problem Solver: x = 2''"
    by (simp add: run_tool_def working_strategy_env_def)
  note analyze_and_respond_cases[of working_strategy_env "''solve 2x = 4''" "()" "[]",
      THEN conjunct2, THEN conjunct2, THEN conjunct1, rule_format,
      of "''math_solver''" solve_math_problem "''Math Problem Solver: x = 2''"]
  with c t r show ?thesis by (simp only: simp_thms)
qed

end
